theory Spec2Isabelle
  imports Complex_Main "HOL-Library.Word" "HOL-Library.Signed_Division"
begin

section \<open>Tide gauge firmware (src/main.cpp)\<close>

text \<open>
  The firmware polls a water-level service and a weather service, keeps the latest
  readings in two global structs and drives a galvanometer needle through an 8-bit DAC.

  Conventions of the embedding.
  \<^item> A finite C++ \<open>float\<close> is the real number it denotes, and every floating-point
    operation of the source rounds its exact result to binary32 (\<open>fl32\<close>, round to nearest,
    ties to even). NaN, the infinities and overflow beyond the largest binary32 value are
    not modelled.
  \<^item> The cast \<open>(int)\<close> of a \<open>float\<close> truncates towards zero; where its result may leave the
    range of the 32-bit \<open>int\<close> (in \<open>windDirection\<close>) the model returns \<open>None\<close> for the
    undefined behaviour. \<open>time_t\<close> is \<^typ>\<open>int\<close>.
  \<^item> \<open>uint8_t\<close> is \<^typ>\<open>8 word\<close>; \<open>unsigned long\<close> (32 bits on the ESP32) is
    \<^typ>\<open>32 word\<close>, so that \<open>now - lastFetch\<close> wraps as in C.
  \<^item> Results of library calls (HTTP status, JSON deserialisation, \<open>time\<close>, \<open>millis\<close>) are
    inputs of the model, gathered in records; a field that a JSON document may lack is an
    \<open>option\<close>. Global variables are fields of explicit state records that each function
    takes and returns. Output on the serial port is not modelled.
\<close>

subsection \<open>Constants\<close>

type_synonym u8 = "8 word"
type_synonym ulong = "32 word"

definition DAC_CENTER :: int where
  "DAC_CENTER = 128"

definition TIDE_SCALE_FT :: real where
  "TIDE_SCALE_FT = 8.0"


definition TIDE_INTERVAL_MS :: ulong where
  "TIDE_INTERVAL_MS = 360000"

definition WEATHER_INTERVAL_MS :: ulong where
  "WEATHER_INTERVAL_MS = 900000"

definition DISPLAY_INTERVAL_MS :: ulong where
  "DISPLAY_INTERVAL_MS = 5000"

subsection \<open>Global state\<close>

record TideState =
  currentFt :: real
  deltaMSL :: real
  nextEventType :: string
  nextEventFt :: real
  nextEventTime :: string
  fetchedAt :: string
  valid :: bool

record WeatherState =
  tempF :: real
  windMph :: real
  windDirDeg :: real
  condition :: string
  fetchedAt :: string
  valid :: bool

text \<open>The default member initialisers of the two structs.\<close>

definition tideState_init :: TideState where
  "tideState_init =
     \<lparr>currentFt = 0, deltaMSL = 0, nextEventType = ''--'', nextEventFt = 0,
      nextEventTime = ''--'', fetchedAt = ''--'', valid = False\<rparr>"

definition weatherState_init :: WeatherState where
  "weatherState_init =
     \<lparr>tempF = 0, windMph = 0, windDirDeg = 0, condition = ''--'',
      fetchedAt = ''--'', valid = False\<rparr>"

subsection \<open>Arduino and C primitives\<close>

text \<open>Arduino's macro \<open>constrain(amt, low, high)\<close>:
  \<^verbatim>\<open>((amt)<(low)?(low):((amt)>(high)?(high):(amt)))\<close>.\<close>

definition constrain :: "'a::linorder \<Rightarrow> 'a \<Rightarrow> 'a \<Rightarrow> 'a" where
  "constrain amt low high = (if amt < low then low else if amt > high then high else amt)"

subsection \<open>Binary32 arithmetic\<close>

text \<open>
  A finite \<open>float\<close> is the real number it denotes. Every arithmetic operation of the
  source on \<open>float\<close> operands is the exact operation followed by \<open>fl32\<close>, rounding to
  the nearest binary32 value, ties to the even significand: \<open>ulp_exp x\<close> is the exponent
  of the unit in the last place at \<open>x\<close> (24-bit significands, least exponent \<open>-149\<close> for
  subnormals, greatest \<open>104\<close>), found by counting up from the least one.
\<close>

definition round_even :: "real \<Rightarrow> int" where
  "round_even r =
     (let f = \<lfloor>r\<rfloor>; d = r - of_int f
      in if d < 1 / 2 then f else if d > 1 / 2 then f + 1 else if even f then f else f + 1)"

fun ulp_search :: "nat \<Rightarrow> int \<Rightarrow> real \<Rightarrow> int" where
  "ulp_search 0 e a = e"
| "ulp_search (Suc n) e a = (if a < 2 powi (e + 24) then e else ulp_search n (e + 1) a)"

definition ulp_exp :: "real \<Rightarrow> int" where
  "ulp_exp x = ulp_search 253 (- 149) \<bar>x\<bar>"

definition fl32 :: "real \<Rightarrow> real" where
  "fl32 x = of_int (round_even (x / 2 powi ulp_exp x)) * 2 powi ulp_exp x"

definition fadd :: "real \<Rightarrow> real \<Rightarrow> real" where
  "fadd a b = fl32 (a + b)"

definition fsub :: "real \<Rightarrow> real \<Rightarrow> real" where
  "fsub a b = fl32 (a - b)"

definition fmul :: "real \<Rightarrow> real \<Rightarrow> real" where
  "fmul a b = fl32 (a * b)"

definition fdiv :: "real \<Rightarrow> real \<Rightarrow> real" where
  "fdiv a b = fl32 (a / b)"

text \<open>The literal \<open>8.35f\<close> is the binary32 value nearest to 8.35.\<close>

definition NOAA_MSL_FT :: real where
  "NOAA_MSL_FT = fl32 8.35"

text \<open>
  The cast \<open>(int)f\<close> of a \<open>float\<close>: truncation towards zero. \<open>int_cast\<close> is the cast with
  its domain: the C++ cast is undefined when the truncated value does not fit the 32-bit
  \<open>int\<close>, which is \<open>None\<close> here.
\<close>

definition float_to_int :: "real \<Rightarrow> int" where
  "float_to_int r = (if r < 0 then \<lceil>r\<rceil> else \<lfloor>r\<rfloor>)"

definition int_cast :: "real \<Rightarrow> int option" where
  "int_cast r =
     (if - (2 ^ 31) \<le> float_to_int r \<and> float_to_int r \<le> 2 ^ 31 - 1
      then Some (float_to_int r) else None)"

text \<open>Decimal printing, as \<open>String(int)\<close> and the conversion \<open>%02d\<close> of \<open>snprintf\<close> do.\<close>

definition digit_char :: "nat \<Rightarrow> char" where
  "digit_char n = ''0123456789'' ! n"

function dec_digits :: "nat \<Rightarrow> string" where
  "dec_digits n =
     (if n < 10 then [digit_char n] else dec_digits (n div 10) @ [digit_char (n mod 10)])"
  by pat_completeness auto
termination
  by (relation "measure (\<lambda>n. n)") auto

declare dec_digits.simps [simp del]

definition String_of_int :: "int \<Rightarrow> string" where
  "String_of_int i = (if i < 0 then CHR ''-'' # dec_digits (nat (- i)) else dec_digits (nat i))"

definition fmt_02d :: "int \<Rightarrow> string" where
  "fmt_02d i = (if 0 \<le> i \<and> i < 10 then CHR ''0'' # String_of_int i else String_of_int i)"

text \<open>
  \<open>String(latest["v"].as<const char*>()).toFloat()\<close>: the number the field holds; a
  missing field gives an empty string, and \<open>toFloat\<close> returns 0 for a string that does not
  start with a number.
\<close>

definition toFloat :: "real option \<Rightarrow> real" where
  "toFloat x = (case x of None \<Rightarrow> 0 | Some r \<Rightarrow> fl32 r)"

text \<open>
  \<open>as<float>()\<close> and \<open>as<int>()\<close> of ArduinoJson on a field of the weather document:
  the default value 0 when the field is missing.
\<close>

definition as_float :: "real option \<Rightarrow> real" where
  "as_float x = (case x of None \<Rightarrow> 0 | Some r \<Rightarrow> fl32 r)"

definition as_int :: "int option \<Rightarrow> int" where
  "as_int x = (case x of None \<Rightarrow> 0 | Some i \<Rightarrow> i)"

subsection \<open>DAC helpers\<close>

text \<open>
  In \<open>tideToDAC\<close> the operand of the cast lies in \<open>[-127, 127]\<close> (\<open>dac_value_range\<close> below),
  where the cast is defined, so the plain truncation stands for it.
\<close>

definition tideToDAC :: "real \<Rightarrow> u8" where
  "tideToDAC delta =
     (let clamped = constrain delta (- TIDE_SCALE_FT) TIDE_SCALE_FT;
          normalized = fdiv clamped TIDE_SCALE_FT;
          dac = DAC_CENTER + float_to_int (fmul normalized 127.0)
      in word_of_int (constrain dac 0 255))"

text \<open>The value of the local variable \<open>dac\<close> of \<open>tideToDAC\<close>.\<close>

definition dac_value :: "real \<Rightarrow> int" where
  "dac_value delta =
     DAC_CENTER +
     float_to_int (fmul (fdiv (constrain delta (- TIDE_SCALE_FT) TIDE_SCALE_FT) TIDE_SCALE_FT) 127)"


subsection \<open>NOAA fetch\<close>

text \<open>
  One element of the \<open>predictions\<close> array whose field \<open>t\<close> is a well-formed time
  \<^verbatim>\<open>YYYY-MM-DD HH:MM\<close>. The times are requested in GMT (\<^verbatim>\<open>time_zone=gmt\<close>), and \<open>t_gmt\<close> is
  the entry's timestamp: the number of seconds since the epoch that this GMT time denotes,
  on the scale of \<open>time(nullptr)\<close>. \<open>ptype\<close> is \<open>p["type"]\<close> as a string and \<open>pv\<close> is
  \<open>p["v"]\<close> converted by \<open>toFloat\<close> (0 if it is missing or not numeric).
\<close>

record Prediction =
  t_gmt :: int
  ptype :: string
  pv :: real

text \<open>
  \<open>sscanf\<close> stores the fields of the time in \<open>ptm\<close>; the hour and the minute are those of
  the GMT time.
\<close>

definition tm_hour :: "Prediction \<Rightarrow> int" where
  "tm_hour p = (t_gmt p mod 86400) div 3600"

definition tm_min :: "Prediction \<Rightarrow> int" where
  "tm_min p = (t_gmt p mod 3600) div 60"

text \<open>
  \<open>mktime\<close> reads \<open>ptm\<close> as local time. The zone is the one \<^verbatim>\<open>setup()\<close> sets with
  \<^verbatim>\<open>configTime(-8 * 3600, 3600, ...)\<close>, eight hours behind GMT, and \<open>tm_isdst\<close> is 0 from
  the initialiser \<^verbatim>\<open>ptm = {}\<close>, standard time. So \<open>mktime\<close> returns the timestamp of the
  entry plus eight hours. The comments after the call announce an adjustment; the code
  makes none and compares this value with \<open>now\<close>.
\<close>

definition gmtOffset_sec :: int where
  "gmtOffset_sec = - 8 * 3600"

definition mktime_local :: "int \<Rightarrow> int" where
  "mktime_local t = t - gmtOffset_sec"

definition pt :: "Prediction \<Rightarrow> int" where
  "pt p = mktime_local (t_gmt p)"

text \<open>
  What one call of \<open>fetchTide\<close> receives from outside: the status code of the water-level
  request, whether \<open>deserializeJson\<close> reported an error, the \<open>data\<close> array (for each
  element the number its field \<open>v\<close> holds, or \<open>None\<close> if the field is missing or is not
  numeric text), the status codes of the two prediction requests, the \<open>predictions\<close>
  array of the second response (empty if it has none), the value of \<open>time(nullptr)\<close> read
  once before the loop, and the string \<open>nowString()\<close> returns at the end.
\<close>

record TideFetch =
  wl_code :: int
  wl_err :: bool
  wl_data :: "real option list"
  pr_code :: int
  pr_code2 :: int
  predictions :: "Prediction list"
  now :: int
  tide_nowString :: string

text \<open>The assignments of the loop body when an entry qualifies.\<close>

definition set_next_event :: "TideState \<Rightarrow> Prediction \<Rightarrow> TideState" where
  "set_next_event s p =
     s\<lparr>nextEventType := (if ptype p = ''H'' then ''High'' else ''Low''),
       nextEventFt := pv p,
       nextEventTime := take 9 (fmt_02d (tm_hour p) @ '':'' @ fmt_02d (tm_min p) @ '' UTC'')\<rparr>"

text \<open>The loop \<open>for (JsonObject p : predictions)\<close> with its \<open>break\<close>.\<close>

fun for_predictions :: "TideState \<Rightarrow> int \<Rightarrow> Prediction list \<Rightarrow> TideState" where
  "for_predictions s n [] = s"
| "for_predictions s n (p # ps) =
     (if pt p > n then set_next_event s p else for_predictions s n ps)"

definition fetchTide :: "TideState \<Rightarrow> TideFetch \<Rightarrow> TideState" where
  "fetchTide tideState io =
     (let s1 = (if wl_code io = 200 then
                  if \<not> wl_err io then
                    if length (wl_data io) > 0 then
                      let v = toFloat (wl_data io ! (length (wl_data io) - 1))
                      in tideState\<lparr>currentFt := v, deltaMSL := fsub v NOAA_MSL_FT,
                                   TideState.valid := True\<rparr>
                    else tideState
                  else tideState
                else tideState);
          s2 = (if pr_code io = 200 then
                  if pr_code2 io = 200 then for_predictions s1 (now io) (predictions io)
                  else s1
                else s1)
      in s2\<lparr>TideState.fetchedAt := tide_nowString io\<rparr>)"

text \<open>Successive refresh cycles.\<close>

definition fetchTide_cycles :: "TideState \<Rightarrow> TideFetch list \<Rightarrow> TideState" where
  "fetchTide_cycles s ios = foldl fetchTide s ios"

text \<open>The guards of \<open>fetchTide\<close> around each of its two blocks.\<close>

definition level_guards_pass :: "TideFetch \<Rightarrow> bool" where
  "level_guards_pass io \<longleftrightarrow> wl_code io = 200 \<and> \<not> wl_err io \<and> wl_data io \<noteq> []"

text \<open>
  Failure of the water-level fetch as the specification words it: transport failure,
  or a malformed payload (one that fails to deserialise, or whose scalar is missing or
  unparsable), or an empty payload.
\<close>

definition level_fetch_failed_spec :: "TideFetch \<Rightarrow> bool" where
  "level_fetch_failed_spec io \<longleftrightarrow>
     wl_code io \<noteq> 200 \<or> wl_err io \<or> wl_data io = [] \<or> last (wl_data io) = None"

definition prediction_fetch_ok :: "TideFetch \<Rightarrow> bool" where
  "prediction_fetch_ok io \<longleftrightarrow> pr_code io = 200 \<and> pr_code2 io = 200"

subsection \<open>Open-Meteo weather fetch\<close>

definition wmoDescription :: "int \<Rightarrow> string" where
  "wmoDescription code =
     (if code = 0 then ''Clear sky''
      else if code = 1 then ''Mainly clear''
      else if code = 2 then ''Partly cloudy''
      else if code = 3 then ''Overcast''
      else if code = 45 \<or> code = 48 then ''Fog''
      else if code = 51 \<or> code = 53 \<or> code = 55 then ''Drizzle''
      else if code = 61 \<or> code = 63 \<or> code = 65 then ''Rain''
      else if code = 71 \<or> code = 73 \<or> code = 75 then ''Snow''
      else if code = 80 \<or> code = 81 \<or> code = 82 then ''Showers''
      else if code = 95 then ''Thunderstorm''
      else ''Unknown ('' @ String_of_int code @ '')'')"

definition dirs :: "string list" where
  "dirs = [''N'', ''NE'', ''E'', ''SE'', ''S'', ''SW'', ''W'', ''NW'']"

text \<open>
  The index computed in \<open>windDirection\<close>: a binary32 sum and quotient, the cast, and
  \<open>%\<close>, which truncates in C++ as \<open>smod\<close> does. \<open>None\<close> stands for undefined behaviour:
  in \<open>windDirection_idx\<close> the cast of a value that does not fit \<open>int\<close>, in
  \<open>windDirection\<close> also the read outside the array \<open>dirs\<close>.
\<close>

definition windDirection_idx :: "real \<Rightarrow> int option" where
  "windDirection_idx deg =
     (case int_cast (fdiv (fadd deg 22.5) 45.0) of
        None \<Rightarrow> None
      | Some i \<Rightarrow> Some (i smod 8))"

definition windDirection :: "real \<Rightarrow> string option" where
  "windDirection deg =
     (case windDirection_idx deg of
        None \<Rightarrow> None
      | Some idx \<Rightarrow>
          if 0 \<le> idx \<and> idx < int (length dirs) then Some (dirs ! nat idx) else None)"

text \<open>
  The sector as the specification words it, over the reals: \<open>round (deg / 45) mod 8\<close>.
\<close>

definition sector_spec :: "real \<Rightarrow> string" where
  "sector_spec deg = dirs ! nat (round (deg / 45) mod 8)"

text \<open>
  What one call of \<open>fetchWeather\<close> receives: the status code, whether \<open>deserializeJson\<close>
  reported an error, the four fields of \<open>current\<close> (\<open>None\<close> for a field the document
  lacks), and the string of \<open>nowString()\<close>.
\<close>

record WeatherFetch =
  w_code :: int
  w_err :: bool
  temperature_2m :: "real option"
  windspeed_10m :: "real option"
  winddirection_10m :: "real option"
  weathercode :: "int option"
  weather_nowString :: string

definition fetchWeather :: "WeatherState \<Rightarrow> WeatherFetch \<Rightarrow> WeatherState" where
  "fetchWeather weatherState io =
     (let s1 = (if w_code io = 200 then
                  if \<not> w_err io then
                    weatherState\<lparr>tempF := as_float (temperature_2m io),
                                 windMph := as_float (windspeed_10m io),
                                 windDirDeg := as_float (winddirection_10m io),
                                 condition := wmoDescription (as_int (weathercode io)),
                                 WeatherState.valid := True\<rparr>
                  else weatherState
                else weatherState)
      in s1\<lparr>WeatherState.fetchedAt := weather_nowString io\<rparr>)"

text \<open>The guards of \<open>fetchWeather\<close>.\<close>

definition weather_guards_pass :: "WeatherFetch \<Rightarrow> bool" where
  "weather_guards_pass io \<longleftrightarrow> w_code io = 200 \<and> \<not> w_err io"

text \<open>
  Failure of the weather fetch as the specification words it: transport failure, or a
  malformed payload (one that fails to deserialise, or that lacks a field).
\<close>

definition weather_fetch_failed_spec :: "WeatherFetch \<Rightarrow> bool" where
  "weather_fetch_failed_spec io \<longleftrightarrow>
     w_code io \<noteq> 200 \<or> w_err io \<or> temperature_2m io = None \<or> windspeed_10m io = None \<or>
     winddirection_10m io = None \<or> weathercode io = None"

subsection \<open>Setup and loop\<close>

text \<open>
  The device: the two global structs, the three timestamps, and the sequence of values
  passed to \<open>dacWrite(DAC_PIN, _)\<close> so far, oldest first.
\<close>

record Device =
  tideState :: TideState
  weatherState :: WeatherState
  lastTideFetch :: ulong
  lastWeatherFetch :: ulong
  lastNeedleUpdate :: ulong
  dacWrites :: "u8 list"

definition setNeedle :: "Device \<Rightarrow> u8 \<Rightarrow> Device" where
  "setNeedle d dacVal = d\<lparr>dacWrites := dacWrites d @ [dacVal]\<rparr>"

function sweep_up :: "int \<Rightarrow> Device \<Rightarrow> Device" where
  "sweep_up i d = (if i \<le> 255 then sweep_up (i + 3) (setNeedle d (word_of_int i)) else d)"
  by pat_completeness auto
termination
  by (relation "measure (\<lambda>(i, d). nat (256 - i))") auto

function sweep_down :: "int \<Rightarrow> Device \<Rightarrow> Device" where
  "sweep_down i d =
     (if i \<ge> DAC_CENTER then sweep_down (i - 3) (setNeedle d (word_of_int i)) else d)"
  by pat_completeness auto
termination
  by (relation "measure (\<lambda>(i, d). nat (i + 3 - DAC_CENTER))") (auto simp: DAC_CENTER_def)

declare sweep_up.simps [simp del] sweep_down.simps [simp del]

definition bootSweep :: "Device \<Rightarrow> Device" where
  "bootSweep d =
     (let d1 = setNeedle d 0;
          d2 = sweep_up 0 d1;
          d3 = sweep_down 255 d2
      in setNeedle d3 (word_of_int DAC_CENTER))"

text \<open>
  The function \<^verbatim>\<open>setup()\<close> from its first \<open>dacWrite\<close> on. Network provisioning and
  the NTP wait change none of the modelled fields (a failed provisioning restarts the
  device, which starts over).
\<close>

definition device_init :: Device where
  "device_init =
     \<lparr>tideState = tideState_init, weatherState = weatherState_init,
      lastTideFetch = 0, lastWeatherFetch = 0, lastNeedleUpdate = 0, dacWrites = []\<rparr>"

definition setup_boot :: "TideFetch \<Rightarrow> WeatherFetch \<Rightarrow> Device" where
  "setup_boot tio wio =
     (let d0 = setNeedle device_init (word_of_int DAC_CENTER);
          d1 = bootSweep d0;
          d2 = d1\<lparr>tideState := fetchTide (tideState d1) tio\<rparr>;
          d3 = d2\<lparr>weatherState := fetchWeather (weatherState d2) wio\<rparr>
      in setNeedle d3 (tideToDAC (deltaMSL (tideState d3))))"

text \<open>
  One pass of \<open>loop\<close>: \<open>millis\<close> is the value read at its start, the two other fields
  are what the fetches receive if their timers fire. \<open>server.handleClient()\<close> serves the
  status page from the state and writes none of the modelled fields.
\<close>

record LoopIO =
  millis :: ulong
  tide_io :: TideFetch
  weather_io :: WeatherFetch

definition loop :: "Device \<Rightarrow> LoopIO \<Rightarrow> Device" where
  "loop d io =
     (let t = millis io;
          d1 = (if t - lastTideFetch d \<ge> TIDE_INTERVAL_MS
                then d\<lparr>lastTideFetch := t,
                       tideState := fetchTide (tideState d) (tide_io io)\<rparr>
                else d);
          d2 = (if t - lastWeatherFetch d1 \<ge> WEATHER_INTERVAL_MS
                then d1\<lparr>lastWeatherFetch := t,
                        weatherState := fetchWeather (weatherState d1) (weather_io io)\<rparr>
                else d1)
      in if t - lastNeedleUpdate d2 \<ge> DISPLAY_INTERVAL_MS
         then let d3 = d2\<lparr>lastNeedleUpdate := t\<rparr>
              in if TideState.valid (tideState d3)
                 then setNeedle d3 (tideToDAC (deltaMSL (tideState d3)))
                 else d3
         else d2)"

definition loop_passes :: "Device \<Rightarrow> LoopIO list \<Rightarrow> Device" where
  "loop_passes d ios = foldl loop d ios"

section \<open>Auxiliary notions\<close>

text \<open>
  The two groups of fields of \<open>TideState\<close> that a refresh writes: the level read from
  the water-level response, and the next predicted event.
\<close>

definition level_fields :: "TideState \<Rightarrow> real \<times> real" where
  "level_fields s = (currentFt s, deltaMSL s)"

definition next_event_fields :: "TideState \<Rightarrow> string \<times> real \<times> string" where
  "next_event_fields s = (nextEventType s, nextEventFt s, nextEventTime s)"

text \<open>
  The first block of \<open>fetchTide\<close> taken alone, with its three nested guards folded
  into \<open>level_guards_pass\<close>; \<open>fetchTide_split\<close> below relates it to \<open>fetchTide\<close>.
\<close>

definition level_update :: "TideState \<Rightarrow> TideFetch \<Rightarrow> TideState" where
  "level_update s io =
     (if level_guards_pass io
      then s\<lparr>currentFt := toFloat (last (wl_data io)),
             deltaMSL := fsub (toFloat (last (wl_data io))) NOAA_MSL_FT,
             TideState.valid := True\<rparr>
      else s)"

text \<open>
  Whenever the state is valid, the stored delta is the binary32 difference of the stored
  level and the station's mean sea level.
\<close>

definition delta_consistent :: "TideState \<Rightarrow> bool" where
  "delta_consistent s \<longleftrightarrow>
     (TideState.valid s \<longrightarrow> deltaMSL s = fsub (currentFt s) NOAA_MSL_FT)"

subsection \<open>Sample inputs\<close>

text \<open>
  Predictions around \<open>now = 1728000000\<close> (a midnight GMT): a high water nine hours ago, a
  high water one hour ago, a low water in two hours, a high water in five hours.
\<close>

definition long_past_high :: Prediction where
  "long_past_high = \<lparr>t_gmt = 1727967600, ptype = ''H'', pv = 7.5\<rparr>"

definition past_high :: Prediction where
  "past_high = \<lparr>t_gmt = 1727996400, ptype = ''H'', pv = 8\<rparr>"

definition next_low :: Prediction where
  "next_low = \<lparr>t_gmt = 1728007200, ptype = ''L'', pv = 1\<rparr>"

definition later_high :: Prediction where
  "later_high = \<lparr>t_gmt = 1728018000, ptype = ''H'', pv = 9\<rparr>"

text \<open>
  A state holding earlier readings (level 9.5 ft, next event a low water), and refresh
  inputs: only the prediction requests succeed; only the water-level request succeeds;
  the predictions hold past entries only; the water-level response holds one element whose field \<open>v\<close> is blank; every
  request fails (\<open>http.GET()\<close> returns a negative code on a connection error).
\<close>

definition stale_tide :: TideState where
  "stale_tide =
     \<lparr>currentFt = 9.5, deltaMSL = 602931 / 524288, nextEventType = ''Low'',
      nextEventFt = 0.5, nextEventTime = ''17:30 UTC'', fetchedAt = ''15:54:00'',
      valid = True\<rparr>"

definition fetch_predictions_only :: TideFetch where
  "fetch_predictions_only =
     \<lparr>wl_code = - 1, wl_err = False, wl_data = [], pr_code = 200, pr_code2 = 200,
      predictions = [long_past_high, next_low, later_high], now = 1728000000,
      tide_nowString = ''16:00:00''\<rparr>"

definition fetch_level_only :: TideFetch where
  "fetch_level_only =
     \<lparr>wl_code = 200, wl_err = False, wl_data = [Some 10.5], pr_code = 200, pr_code2 = - 1,
      predictions = [], now = 1728000000, tide_nowString = ''16:00:00''\<rparr>"

definition fetch_past_window :: TideFetch where
  "fetch_past_window =
     \<lparr>wl_code = 200, wl_err = False, wl_data = [Some 10.5], pr_code = 200, pr_code2 = 200,
      predictions = [long_past_high, past_high], now = 1728000000,
      tide_nowString = ''16:00:00''\<rparr>"

definition fetch_blank_reading :: TideFetch where
  "fetch_blank_reading =
     \<lparr>wl_code = 200, wl_err = False, wl_data = [None], pr_code = 200, pr_code2 = 200,
      predictions = [long_past_high, next_low, later_high], now = 1728000000,
      tide_nowString = ''16:00:00''\<rparr>"

definition fetch_nothing :: TideFetch where
  "fetch_nothing =
     \<lparr>wl_code = - 1, wl_err = False, wl_data = [], pr_code = - 1, pr_code2 = - 1,
      predictions = [], now = 1728000360, tide_nowString = ''16:06:00''\<rparr>"

definition weather_nothing :: WeatherFetch where
  "weather_nothing =
     \<lparr>w_code = - 1, w_err = False, temperature_2m = None, windspeed_10m = None,
      winddirection_10m = None, weathercode = None, weather_nowString = ''16:06:00''\<rparr>"

definition weather_rain :: WeatherFetch where
  "weather_rain =
     \<lparr>w_code = 200, w_err = False, temperature_2m = Some 48, windspeed_10m = Some 7,
      winddirection_10m = Some 270, weathercode = Some 61,
      weather_nowString = ''16:15:00''\<rparr>"

text \<open>A response that parses but whose object \<open>current\<close> holds none of the fields.\<close>

definition weather_no_fields :: WeatherFetch where
  "weather_no_fields =
     \<lparr>w_code = 200, w_err = False, temperature_2m = None, windspeed_10m = None,
      winddirection_10m = None, weathercode = None, weather_nowString = ''16:30:00''\<rparr>"

definition stale_weather :: WeatherState where
  "stale_weather =
     \<lparr>tempF = 51.5, windMph = 4, windDirDeg = 180, condition = ''Overcast'',
      fetchedAt = ''15:45:00'', valid = True\<rparr>"

text \<open>
  One pass of \<open>loop\<close> 400 s after boot in which every request fails, and a device
  whose state is valid with the water 8 ft above mean sea level.
\<close>

definition pass_400s :: LoopIO where
  "pass_400s = \<lparr>millis = 400000, tide_io = fetch_nothing, weather_io = weather_nothing\<rparr>"

definition high_water_device :: Device where
  "high_water_device =
     device_init\<lparr>tideState := tideState_init\<lparr>deltaMSL := 8, TideState.valid := True\<rparr>\<rparr>"

section \<open>Binary32 rounding\<close>

text \<open>
  Rounding is monotone, odd, and leaves every value \<open>m * 2 ^ e\<close> with \<open>\<bar>m\<bar> < 2 ^ 24\<close> and
  \<open>e\<close> in the exponent range unchanged.
\<close>

lemma ulp_search_props:
  "e \<le> ulp_search n e a \<and> ulp_search n e a \<le> e + int n \<and>
   (ulp_search n e a < e + int n \<longrightarrow> a < 2 powi (ulp_search n e a + 24)) \<and>
   (e < ulp_search n e a \<longrightarrow> 2 powi (ulp_search n e a + 23) \<le> a)"
proof (induction n arbitrary: e)
  case 0
  show ?case by simp
next
  case (Suc n)
  show ?case
  proof (cases "a < 2 powi (e + 24)")
    case True
    then show ?thesis by simp
  next
    case False
    let ?r = "ulp_search n (e + 1) a"
    from Suc [of "e + 1"] have ih: "e + 1 \<le> ?r" "?r \<le> e + 1 + int n"
      "?r < e + 1 + int n \<longrightarrow> a < 2 powi (?r + 24)"
      "e + 1 < ?r \<longrightarrow> 2 powi (?r + 23) \<le> a"
      by simp_all
    have "2 powi (?r + 23) \<le> a"
    proof (cases "e + 1 < ?r")
      case True
      with ih(4) show ?thesis by simp
    next
      case False
      with ih(1) have "?r = e + 1" by simp
      with \<open>\<not> a < 2 powi (e + 24)\<close> show ?thesis by (simp add: add.commute)
    qed
    with ih \<open>\<not> a < 2 powi (e + 24)\<close> show ?thesis by simp
  qed
qed

lemma ulp_exp_range: "- 149 \<le> ulp_exp x \<and> ulp_exp x \<le> 104"
  using ulp_search_props [of "- 149" 253 "\<bar>x\<bar>"] by (simp add: ulp_exp_def)

lemma ulp_exp_upper: "ulp_exp x < 104 \<Longrightarrow> \<bar>x\<bar> < 2 powi (ulp_exp x + 24)"
  using ulp_search_props [of "- 149" 253 "\<bar>x\<bar>"] by (simp add: ulp_exp_def)

lemma ulp_exp_lower: "- 149 < ulp_exp x \<Longrightarrow> 2 powi (ulp_exp x + 23) \<le> \<bar>x\<bar>"
  using ulp_search_props [of "- 149" 253 "\<bar>x\<bar>"] by (simp add: ulp_exp_def)

lemma powi2_mono: "m \<le> n \<Longrightarrow> (2::real) powi m \<le> 2 powi n"
  by (rule power_int_increasing) simp_all

lemma ulp_exp_mono: "\<bar>x\<bar> \<le> \<bar>y\<bar> \<Longrightarrow> ulp_exp x \<le> ulp_exp y"
proof (rule ccontr)
  assume le: "\<bar>x\<bar> \<le> \<bar>y\<bar>" and "\<not> ulp_exp x \<le> ulp_exp y"
  then have gt: "ulp_exp y < ulp_exp x" by simp
  with ulp_exp_range [of y] have "- 149 < ulp_exp x" by linarith
  then have a: "2 powi (ulp_exp x + 23) \<le> \<bar>x\<bar>" by (rule ulp_exp_lower)
  from gt ulp_exp_range [of x] have "ulp_exp y < 104" by linarith
  then have b: "\<bar>y\<bar> < 2 powi (ulp_exp y + 24)" by (rule ulp_exp_upper)
  from gt have "(2::real) powi (ulp_exp y + 24) \<le> 2 powi (ulp_exp x + 23)"
    by (intro powi2_mono) simp
  with a b le show False by linarith
qed

lemma ulp_exp_eq:
  assumes "- 149 \<le> e" "e \<le> 104" "e = - 149 \<or> 2 powi (e + 23) \<le> \<bar>x\<bar>"
    "e = 104 \<or> \<bar>x\<bar> < 2 powi (e + 24)"
  shows "ulp_exp x = e"
proof (rule antisym)
  show "ulp_exp x \<le> e"
  proof (rule ccontr)
    assume "\<not> ulp_exp x \<le> e"
    then have gt: "e < ulp_exp x" by simp
    with assms(1) have "2 powi (ulp_exp x + 23) \<le> \<bar>x\<bar>" by (intro ulp_exp_lower) simp
    moreover from gt ulp_exp_range [of x] assms(4) have "\<bar>x\<bar> < 2 powi (e + 24)" by auto
    moreover from gt have "(2::real) powi (e + 24) \<le> 2 powi (ulp_exp x + 23)"
      by (intro powi2_mono) simp
    ultimately show False by linarith
  qed
  show "e \<le> ulp_exp x"
  proof (rule ccontr)
    assume "\<not> e \<le> ulp_exp x"
    then have lt: "ulp_exp x < e" by simp
    with assms(2) have "\<bar>x\<bar> < 2 powi (ulp_exp x + 24)" by (intro ulp_exp_upper) simp
    moreover from lt ulp_exp_range [of x] assms(3) have "2 powi (e + 23) \<le> \<bar>x\<bar>" by auto
    moreover from lt have "(2::real) powi (ulp_exp x + 24) \<le> 2 powi (e + 23)"
      by (intro powi2_mono) simp
    ultimately show False by linarith
  qed
qed

lemma round_even_of_int [simp]: "round_even (of_int k) = k"
  by (simp add: round_even_def)

lemma round_even_bounds: "\<lfloor>r\<rfloor> \<le> round_even r \<and> round_even r \<le> \<lfloor>r\<rfloor> + 1"
  by (simp add: round_even_def Let_def)

lemma round_even_mono: "r \<le> s \<Longrightarrow> round_even r \<le> round_even s"
proof -
  assume le: "r \<le> s"
  then have fl: "\<lfloor>r\<rfloor> \<le> \<lfloor>s\<rfloor>" by (rule floor_mono)
  show ?thesis
  proof (cases "\<lfloor>r\<rfloor> = \<lfloor>s\<rfloor>")
    case True
    with le show ?thesis by (auto simp: round_even_def Let_def)
  next
    case False
    with fl have "\<lfloor>r\<rfloor> + 1 \<le> \<lfloor>s\<rfloor>" by simp
    with round_even_bounds [of r] round_even_bounds [of s] show ?thesis by linarith
  qed
qed

lemma round_even_minus: "round_even (- r) = - round_even r"
proof (cases "r \<in> \<int>")
  case True
  then obtain k where "r = of_int k" by (auto elim: Ints_cases)
  then have "- r = of_int (- k)" by simp
  then show ?thesis using \<open>r = of_int k\<close> by (simp only: round_even_of_int)
next
  case False
  from False have ne: "r \<noteq> of_int \<lfloor>r\<rfloor>" by (metis Ints_of_int)
  then have f: "\<lfloor>- r\<rfloor> = - \<lfloor>r\<rfloor> - 1"
    by (simp add: floor_minus ceiling_altdef)
  have lo: "of_int \<lfloor>r\<rfloor> \<le> r" by simp
  from ne lo show ?thesis
    unfolding round_even_def Let_def f by (auto simp: field_simps)
qed

lemma round_even_ge: "of_int k \<le> r \<Longrightarrow> k \<le> round_even r"
  using round_even_mono [of "of_int k" r] by simp

lemma round_even_le: "r \<le> of_int k \<Longrightarrow> round_even r \<le> k"
  using round_even_mono [of r "of_int k"] by simp

lemma powi2_pos [simp]: "0 < (2::real) powi e"
  by (simp add: zero_less_power_int)

lemma fl32_minus: "fl32 (- x) = - fl32 x"
  by (simp add: fl32_def ulp_exp_def round_even_minus)

lemma fl32_zero [simp]: "fl32 0 = 0"
  using round_even_of_int [of 0] by (simp add: fl32_def)

lemma fl32_nonneg: "0 \<le> x \<Longrightarrow> 0 \<le> fl32 x"
proof -
  assume "0 \<le> x"
  then have "of_int 0 \<le> x / 2 powi ulp_exp x" by simp
  then have "0 \<le> round_even (x / 2 powi ulp_exp x)" by (rule round_even_ge)
  then show ?thesis by (simp add: fl32_def)
qed

lemma fl32_mono_nonneg:
  assumes "0 \<le> x" "x \<le> y"
  shows "fl32 x \<le> fl32 y"
proof (cases "ulp_exp x = ulp_exp y")
  case True
  from assms have "x / 2 powi ulp_exp y \<le> y / 2 powi ulp_exp y"
    by (simp add: divide_right_mono)
  then have "round_even (x / 2 powi ulp_exp y) \<le> round_even (y / 2 powi ulp_exp y)"
    by (rule round_even_mono)
  then show ?thesis by (simp add: fl32_def True)
next
  case False
  from assms have "ulp_exp x \<le> ulp_exp y" by (intro ulp_exp_mono) simp
  with False have lt: "ulp_exp x < ulp_exp y" by simp
  let ?ex = "ulp_exp x" and ?ey = "ulp_exp y"
  from lt ulp_exp_range [of y] have "?ex < 104" by linarith
  then have "\<bar>x\<bar> < 2 powi (?ex + 24)" by (rule ulp_exp_upper)
  then have "x / 2 powi ?ex \<le> 2 powi 24"
    using assms(1) by (simp add: power_int_add field_simps)
  then have "x / 2 powi ?ex \<le> of_int (2 ^ 24)" by simp
  then have "round_even (x / 2 powi ?ex) \<le> 2 ^ 24" by (rule round_even_le)
  then have "(of_int (round_even (x / 2 powi ?ex)) :: real) \<le> of_int (2 ^ 24)"
    by (simp only: of_int_le_iff)
  then have "fl32 x \<le> 2 ^ 24 * 2 powi ?ex"
    by (simp add: fl32_def)
  also have "\<dots> = 2 powi (?ex + 24)"
    by (simp add: power_int_add)
  also have "\<dots> \<le> 2 powi (?ey + 23)"
    using lt by (intro powi2_mono) simp
  also have "\<dots> \<le> fl32 y"
  proof -
    from lt ulp_exp_range [of x] have "- 149 < ?ey" by linarith
    then have "2 powi (?ey + 23) \<le> \<bar>y\<bar>" by (rule ulp_exp_lower)
    then have "2 powi 23 \<le> y / 2 powi ?ey"
      using assms by (simp add: power_int_add field_simps)
    then have "of_int (2 ^ 23) \<le> y / 2 powi ?ey" by simp
    then have "2 ^ 23 \<le> round_even (y / 2 powi ?ey)" by (rule round_even_ge)
    then have "(of_int (2 ^ 23) :: real) \<le> of_int (round_even (y / 2 powi ?ey))"
      by (simp only: of_int_le_iff)
    then have "2 ^ 23 * 2 powi ?ey \<le> fl32 y"
      by (simp add: fl32_def)
    then show ?thesis by (simp add: power_int_add mult.commute)
  qed
  finally show ?thesis .
qed

lemma fl32_mono: "x \<le> y \<Longrightarrow> fl32 x \<le> fl32 y"
proof -
  assume le: "x \<le> y"
  consider "0 \<le> x" | "y \<le> 0" | "x < 0" "0 < y" by linarith
  then show ?thesis
  proof cases
    case 1
    with le show ?thesis by (simp add: fl32_mono_nonneg)
  next
    case 2
    with le have "fl32 (- y) \<le> fl32 (- x)" by (intro fl32_mono_nonneg) simp_all
    then show ?thesis by (simp add: fl32_minus)
  next
    case 3
    then have "0 \<le> fl32 (- x)" "0 \<le> fl32 y" by (simp_all add: fl32_nonneg)
    then show ?thesis by (simp add: fl32_minus)
  qed
qed

lemma fl32_exact:
  assumes "\<bar>m\<bar> < 2 ^ 24" "- 149 \<le> e" "e \<le> 104"
  shows "fl32 (of_int m * 2 powi e) = of_int m * 2 powi e"
proof -
  define x :: real where "x = of_int m * 2 powi e"
  define u where "u = ulp_exp x"
  have abs: "\<bar>x\<bar> = of_int \<bar>m\<bar> * 2 powi e"
    by (simp add: x_def abs_mult)
  have le: "u \<le> e"
  proof (rule ccontr)
    assume "\<not> u \<le> e"
    then have gt: "e < u" by simp
    with assms(2) have "2 powi (u + 23) \<le> \<bar>x\<bar>"
      unfolding u_def by (intro ulp_exp_lower) simp
    moreover have "\<bar>x\<bar> < 2 ^ 24 * 2 powi e"
    proof -
      from assms(1) have "(of_int \<bar>m\<bar> :: real) < of_int (2 ^ 24)"
        by (simp only: of_int_less_iff)
      then show ?thesis unfolding abs by simp
    qed
    moreover have "(2::real) ^ 24 * 2 powi e = 2 powi (e + 24)"
      by (simp add: power_int_add)
    moreover from gt have "(2::real) powi (e + 24) \<le> 2 powi (u + 23)"
      by (intro powi2_mono) simp
    ultimately show False by linarith
  qed
  define d where "d = nat (e - u)"
  have e: "e = u + int d" using le by (simp add: d_def)
  have p: "(2::real) powi e = 2 powi u * 2 ^ d"
    by (subst e) (simp add: power_int_add)
  have xu: "x = of_int (m * 2 ^ d) * 2 powi u"
    by (simp add: x_def p)
  have "x / 2 powi u = of_int (m * 2 ^ d)"
    by (subst xu) simp
  then have "round_even (x / 2 powi u) = m * 2 ^ d"
    by (simp only: round_even_of_int)
  then have "fl32 x = of_int (m * 2 ^ d) * 2 powi u"
    by (simp add: fl32_def u_def)
  then have "fl32 x = x" by (simp only: xu [symmetric])
  then show ?thesis by (simp only: x_def)
qed

lemma fl32_int: "\<bar>k\<bar> < 2 ^ 24 \<Longrightarrow> fl32 (of_int k) = of_int k"
  using fl32_exact [of k 0] by simp

section \<open>The needle mapping\<close>

lemma float_to_int_mono: "r \<le> s \<Longrightarrow> float_to_int r \<le> float_to_int s"
proof -
  have "\<lceil>r\<rceil> \<le> \<lfloor>s\<rfloor>" if "r < 0" "0 \<le> s"
  proof -
    have "\<lceil>r\<rceil> \<le> 0" using that by (simp add: ceiling_le_iff)
    moreover have "0 \<le> \<lfloor>s\<rfloor>" using that by simp
    ultimately show ?thesis by linarith
  qed
  moreover assume "r \<le> s"
  ultimately show ?thesis
    by (auto simp: float_to_int_def intro: floor_mono ceiling_mono)
qed

lemma constrain_mono: "x \<le> y \<Longrightarrow> lo \<le> hi \<Longrightarrow> constrain x lo hi \<le> constrain y lo hi"
  by (auto simp: constrain_def)

lemma constrain_range: "lo \<le> hi \<Longrightarrow> lo \<le> constrain x lo hi \<and> constrain x lo hi \<le> hi"
  by (auto simp: constrain_def)

lemma fl32_one: "fl32 1 = 1" "fl32 (- 1) = - 1"
  using fl32_int [of 1] fl32_int [of "- 1"] by simp_all

lemma fl32_127: "fl32 127 = 127" "fl32 (- 127) = - 127"
  using fl32_int [of 127] fl32_int [of "- 127"] by simp_all


text \<open>The operand of the cast in \<open>tideToDAC\<close> lies in \<open>[-127, 127]\<close>.\<close>

lemma product_range:
  "- 127 \<le> fmul (fdiv (constrain x (- TIDE_SCALE_FT) TIDE_SCALE_FT) TIDE_SCALE_FT) 127 \<and>
   fmul (fdiv (constrain x (- TIDE_SCALE_FT) TIDE_SCALE_FT) TIDE_SCALE_FT) 127 \<le> 127"
proof -
  let ?c = "constrain x (- TIDE_SCALE_FT) TIDE_SCALE_FT"
  have c: "- 8 \<le> ?c \<and> ?c \<le> 8"
    using constrain_range [of "- TIDE_SCALE_FT" TIDE_SCALE_FT x]
    by (simp add: TIDE_SCALE_FT_def)
  then have "fl32 (- 1) \<le> fl32 (?c / 8)" "fl32 (?c / 8) \<le> fl32 1"
    by (simp_all add: fl32_mono)
  then have n: "- 1 \<le> fl32 (?c / 8) \<and> fl32 (?c / 8) \<le> 1"
    by (simp add: fl32_one)
  then have "fl32 (- 127) \<le> fl32 (fl32 (?c / 8) * 127)"
    "fl32 (fl32 (?c / 8) * 127) \<le> fl32 127"
    by (simp_all add: fl32_mono)
  then show ?thesis
    by (simp add: fl32_127 fmul_def fdiv_def TIDE_SCALE_FT_def)
qed

lemma dac_value_range: "1 \<le> dac_value x \<and> dac_value x \<le> 255"
proof -
  let ?p = "fmul (fdiv (constrain x (- TIDE_SCALE_FT) TIDE_SCALE_FT) TIDE_SCALE_FT) 127"
  from product_range [of x]
  have "float_to_int (- 127) \<le> float_to_int ?p" "float_to_int ?p \<le> float_to_int 127"
    by (simp_all add: float_to_int_mono)
  moreover have "float_to_int (- 127) = - 127" "float_to_int 127 = 127"
    by (simp_all add: float_to_int_def)
  ultimately show ?thesis
    by (simp add: dac_value_def DAC_CENTER_def)
qed

text \<open>The final \<open>constrain(dac, 0, 255)\<close> and the cast to \<open>uint8_t\<close> change nothing.\<close>

lemma uint_tideToDAC: "uint (tideToDAC x) = dac_value x"
proof -
  have r: "1 \<le> dac_value x \<and> dac_value x \<le> 255" by (rule dac_value_range)
  then have "constrain (dac_value x) 0 255 = dac_value x" by (simp add: constrain_def)
  then have "tideToDAC x = word_of_int (dac_value x)"
    by (simp add: tideToDAC_def dac_value_def Let_def)
  moreover have "uint (word_of_int (dac_value x) :: u8) = dac_value x"
    using r by (simp add: uint_word_of_int take_bit_int_eq_self)
  ultimately show ?thesis by simp
qed

lemma dac_value_mono: "x \<le> y \<Longrightarrow> dac_value x \<le> dac_value y"
proof -
  assume "x \<le> y"
  then have "constrain x (- TIDE_SCALE_FT) TIDE_SCALE_FT \<le>
      constrain y (- TIDE_SCALE_FT) TIDE_SCALE_FT"
    by (rule constrain_mono) (simp add: TIDE_SCALE_FT_def)
  then have "fdiv (constrain x (- TIDE_SCALE_FT) TIDE_SCALE_FT) TIDE_SCALE_FT \<le>
      fdiv (constrain y (- TIDE_SCALE_FT) TIDE_SCALE_FT) TIDE_SCALE_FT"
    unfolding fdiv_def by (intro fl32_mono divide_right_mono) (simp_all add: TIDE_SCALE_FT_def)
  then have "fmul (fdiv (constrain x (- TIDE_SCALE_FT) TIDE_SCALE_FT) TIDE_SCALE_FT) 127 \<le>
      fmul (fdiv (constrain y (- TIDE_SCALE_FT) TIDE_SCALE_FT) TIDE_SCALE_FT) 127"
    unfolding fmul_def by (intro fl32_mono mult_right_mono) simp_all
  then show ?thesis
    unfolding dac_value_def by (intro add_left_mono float_to_int_mono)
qed

lemma tideToDAC_top: "tideToDAC 8 = 255"
  by (simp add: tideToDAC_def constrain_def TIDE_SCALE_FT_def DAC_CENTER_def float_to_int_def
      fmul_def fdiv_def fl32_one fl32_127)

lemma tideToDAC_zero: "tideToDAC 0 = 128"
  by (simp add: tideToDAC_def constrain_def TIDE_SCALE_FT_def DAC_CENTER_def float_to_int_def
      fmul_def fdiv_def)


text \<open>
  Claim C7. The mapping from tide delta to output code is monotonic non-decreasing over
  all inputs: across both clamping boundaries, through the two binary32 roundings and
  through the truncation of \<open>normalized * 127\<close> to an integer.
\<close>

theorem tideToDAC_mono: "x \<le> y \<Longrightarrow> tideToDAC x \<le> tideToDAC y"
  by (simp add: word_le_def uint_tideToDAC dac_value_mono)

theorem tideToDAC_mono_witness: "(1::real) \<le> 2 \<and> tideToDAC 1 \<le> tideToDAC 2"
  using tideToDAC_mono [of 1 2] by simp




section \<open>The tide refresh\<close>

lemma set_next_event_frame:
  "currentFt (set_next_event s p) = currentFt s"
  "deltaMSL (set_next_event s p) = deltaMSL s"
  "TideState.valid (set_next_event s p) = TideState.valid s"
  "TideState.fetchedAt (set_next_event s p) = TideState.fetchedAt s"
  by (simp_all add: set_next_event_def)

lemma for_predictions_frame:
  "currentFt (for_predictions s n ps) = currentFt s"
  "deltaMSL (for_predictions s n ps) = deltaMSL s"
  "TideState.valid (for_predictions s n ps) = TideState.valid s"
  "TideState.fetchedAt (for_predictions s n ps) = TideState.fetchedAt s"
  by (induction ps; simp add: set_next_event_frame)+

lemma for_predictions_none:
  "\<forall>p\<in>set ps. pt p \<le> n \<Longrightarrow> for_predictions s n ps = s"
  by (induction ps) auto

lemma for_predictions_first:
  "\<forall>q\<in>set before. pt q \<le> n \<Longrightarrow> n < pt p \<Longrightarrow>
   for_predictions s n (before @ p # after) = set_next_event s p"
  by (induction before) auto

lemma for_predictions_cases:
  "for_predictions s n ps = s \<or> (\<exists>p\<in>set ps. n < pt p \<and> for_predictions s n ps = set_next_event s p)"
  by (induction ps) auto

lemma next_event_fields_set:
  "next_event_fields (set_next_event s p) = next_event_fields (set_next_event s' p)"
  by (simp add: next_event_fields_def set_next_event_def)

lemma for_predictions_next_indep:
  "next_event_fields s = next_event_fields s' \<Longrightarrow>
   next_event_fields (for_predictions s n ps) = next_event_fields (for_predictions s' n ps)"
  by (induction ps) (auto simp: next_event_fields_set)

lemma fetchTide_split:
  "fetchTide s io =
     (if prediction_fetch_ok io
      then for_predictions (level_update s io) (now io) (predictions io)
      else level_update s io)\<lparr>TideState.fetchedAt := tide_nowString io\<rparr>"
  by (auto simp: fetchTide_def level_update_def level_guards_pass_def prediction_fetch_ok_def
      Let_def last_conv_nth)

lemma level_update_next: "next_event_fields (level_update s io) = next_event_fields s"
  by (simp add: level_update_def next_event_fields_def)

lemma level_update_fail: "\<not> level_guards_pass io \<Longrightarrow> level_update s io = s"
  by (simp add: level_update_def)

lemma fetchTide_level:
  "currentFt (fetchTide s io) = currentFt (level_update s io)"
  "deltaMSL (fetchTide s io) = deltaMSL (level_update s io)"
  by (simp_all add: fetchTide_split for_predictions_frame)

lemma fetchTide_valid:
  "TideState.valid (fetchTide s io) \<longleftrightarrow> TideState.valid s \<or> level_guards_pass io"
  by (simp add: fetchTide_split for_predictions_frame level_update_def)

lemma next_event_fields_fetchedAt:
  "next_event_fields (s\<lparr>TideState.fetchedAt := x\<rparr>) = next_event_fields s"
  by (simp add: next_event_fields_def)

lemma fetchTide_next_fields:
  "next_event_fields (fetchTide s io) =
     (if prediction_fetch_ok io
      then next_event_fields (for_predictions s (now io) (predictions io))
      else next_event_fields s)"
proof (cases "prediction_fetch_ok io")
  case True
  then show ?thesis
    using for_predictions_next_indep [OF level_update_next, of s io "now io" "predictions io"]
    by (simp add: fetchTide_split next_event_fields_fetchedAt)
next
  case False
  then show ?thesis
    by (simp add: fetchTide_split next_event_fields_fetchedAt level_update_next)
qed

lemma fetchTide_level_atomic:
  "level_fields (fetchTide s io) = level_fields s \<or>
   (\<exists>v\<in>set (wl_data io).
      level_fields (fetchTide s io) = (toFloat v, fsub (toFloat v) NOAA_MSL_FT))"
  by (auto simp: fetchTide_level level_update_def level_fields_def level_guards_pass_def)

lemma fetchTide_next_atomic:
  "next_event_fields (fetchTide s io) = next_event_fields s \<or>
   (\<exists>p\<in>set (predictions io).
      next_event_fields (fetchTide s io) = next_event_fields (set_next_event s p))"
  using for_predictions_cases [of s "now io" "predictions io"]
  by (auto simp: fetchTide_next_fields)

subsection \<open>Facts about the sample inputs\<close>

text \<open>The value of \<open>8.35f\<close>, and the binary32 values that occur with the sample readings.\<close>

lemma NOAA_MSL_FT_value: "NOAA_MSL_FT = 4377805 / 524288"
proof -
  have "ulp_exp 8.35 = - 20"
    by (rule ulp_exp_eq) (simp_all add: power_int_minus)
  then show ?thesis
    by (simp add: NOAA_MSL_FT_def fl32_def round_even_def power_int_minus)
qed

lemma sample_level_values:
  "toFloat (Some 10.5) = 10.5" "toFloat None = 0"
  "fsub 10.5 NOAA_MSL_FT = 1127219 / 524288" "fsub 0 NOAA_MSL_FT = - (4377805 / 524288)"
  using fl32_exact [of 21 "- 1"] fl32_exact [of 1127219 "- 19"]
    fl32_exact [of "- 4377805" "- 19"]
  by (simp_all add: toFloat_def fsub_def NOAA_MSL_FT_value power_int_minus)

lemma sample_pt:
  "pt long_past_high = 1727996400" "pt past_high = 1728025200" "pt next_low = 1728036000"
  "pt later_high = 1728046800"
  by (simp_all add: pt_def mktime_local_def gmtOffset_sec_def long_past_high_def past_high_def
      next_low_def later_high_def)

lemma sample_t_gmt:
  "t_gmt long_past_high = 1727967600" "t_gmt past_high = 1727996400"
  "t_gmt next_low = 1728007200" "t_gmt later_high = 1728018000"
  by (simp_all add: long_past_high_def past_high_def next_low_def later_high_def)

lemma sample_events:
  "next_event_fields (set_next_event s past_high) = (''High'', 8, ''23:00 UTC'')"
  "next_event_fields (set_next_event s next_low) = (''Low'', 1, ''02:00 UTC'')"
  "next_event_fields (set_next_event s later_high) = (''High'', 9, ''05:00 UTC'')"
  by (simp_all add: next_event_fields_def set_next_event_def past_high_def next_low_def
      later_high_def tm_hour_def tm_min_def fmt_02d_def String_of_int_def dec_digits.simps
      digit_char_def)

lemma stale_tide_fields:
  "level_fields stale_tide = (9.5, 602931 / 524288)"
  "next_event_fields stale_tide = (''Low'', 1 / 2, ''17:30 UTC'')"
  by (simp_all add: level_fields_def next_event_fields_def stale_tide_def)

lemma fetch_predictions_only_facts:
  "\<not> level_guards_pass fetch_predictions_only" "prediction_fetch_ok fetch_predictions_only"
  "predictions fetch_predictions_only = [long_past_high] @ next_low # [later_high]"
  "now fetch_predictions_only = 1728000000"
  by (simp_all add: fetch_predictions_only_def level_guards_pass_def prediction_fetch_ok_def)

lemma fetch_level_only_facts:
  "level_guards_pass fetch_level_only" "\<not> prediction_fetch_ok fetch_level_only"
  "last (wl_data fetch_level_only) = Some 10.5"
  by (simp_all add: fetch_level_only_def level_guards_pass_def prediction_fetch_ok_def)

lemma fetch_nothing_facts:
  "\<not> level_guards_pass fetch_nothing" "\<not> prediction_fetch_ok fetch_nothing"
  by (simp_all add: fetch_nothing_def level_guards_pass_def prediction_fetch_ok_def)

subsection \<open>The next-event search\<close>

text \<open>
  Claim C8 holds for an empty list, but not for past entries: the code compares \<open>now\<close>
  with the value of \<open>mktime\<close>, which is the entry's timestamp plus eight hours, so an entry
  up to eight hours in the past passes the test. With the two entries of
  \<open>fetch_past_window\<close>, nine hours and one hour before \<open>now\<close>, the refresh replaces the
  stored next event (low water, 0.5 ft, 17:30) by the high water of one hour ago.
\<close>

theorem fetchTide_past_prediction_overwrites:
  "predictions fetch_past_window = [long_past_high, past_high] \<and>
   t_gmt long_past_high \<le> now fetch_past_window \<and> t_gmt past_high \<le> now fetch_past_window \<and>
   next_event_fields stale_tide = (''Low'', 1 / 2, ''17:30 UTC'') \<and>
   next_event_fields (fetchTide stale_tide fetch_past_window) = (''High'', 8, ''23:00 UTC'')"
proof -
  have "for_predictions stale_tide (now fetch_past_window) (predictions fetch_past_window) =
      set_next_event stale_tide past_high"
    by (simp add: fetch_past_window_def sample_pt)
  then have "next_event_fields (fetchTide stale_tide fetch_past_window) =
      (''High'', 8, ''23:00 UTC'')"
    by (simp add: fetchTide_next_fields sample_events prediction_fetch_ok_def
        fetch_past_window_def)
  then show ?thesis
    by (simp add: stale_tide_fields fetch_past_window_def sample_t_gmt)
qed

text \<open>
  Claim C2, as stated, fails: the loop stops at the first entry in list order that passes
  its test. At \<open>now = 1728000000\<close> and with the list ordered \<open>+5h High, +2h Low, -9h High\<close>
  it selects the high water at \<open>+5h\<close> although the low water at \<open>+2h\<close> is earlier; on the
  same entries in chronological order it selects the low water.
\<close>

theorem for_predictions_order_counterexample:
  "next_event_fields (for_predictions tideState_init 1728000000
      [later_high, next_low, long_past_high]) = (''High'', 9, ''05:00 UTC'') \<and>
   next_event_fields (for_predictions tideState_init 1728000000
      [long_past_high, next_low, later_high]) = (''Low'', 1, ''02:00 UTC'')"
  by (simp add: sample_pt sample_events)

text \<open>
  Claim C2, amended. The search selects the first entry in list order that passes the
  test of the loop, \<open>pt > now\<close> with \<open>pt\<close> the value \<open>mktime\<close> returns for the entry, and
  stops there without looking at the remaining entries; when the list is in chronological
  order (timestamps non-decreasing), that entry has the earliest timestamp among all
  entries that pass the test. The result depends on the order of the list.
\<close>

theorem for_predictions_first_qualifying:
  "(\<forall>q\<in>set before. pt q \<le> n) \<and> n < pt p \<longrightarrow>
   for_predictions s n (before @ p # after) = set_next_event s p \<and>
   (sorted (map t_gmt (before @ p # after)) \<longrightarrow>
      (\<forall>q\<in>set (before @ p # after). n < pt q \<longrightarrow> t_gmt p \<le> t_gmt q))"
proof (intro impI conjI)
  assume h: "(\<forall>q\<in>set before. pt q \<le> n) \<and> n < pt p"
  then show "for_predictions s n (before @ p # after) = set_next_event s p"
    by (simp add: for_predictions_first)
  assume "sorted (map t_gmt (before @ p # after))"
  then have "\<forall>q\<in>set after. t_gmt p \<le> t_gmt q"
    by (simp add: sorted_append)
  with h show "\<forall>q\<in>set (before @ p # after). n < pt q \<longrightarrow> t_gmt p \<le> t_gmt q"
    by auto
qed

theorem for_predictions_first_qualifying_witness:
  "pt long_past_high \<le> 1728000000 \<and> 1728000000 < pt next_low \<and>
   sorted (map t_gmt ([long_past_high] @ next_low # [later_high])) \<and>
   for_predictions tideState_init 1728000000 ([long_past_high] @ next_low # [later_high]) =
     set_next_event tideState_init next_low \<and>
   1728000000 < pt later_high \<and> t_gmt next_low \<le> t_gmt later_high"
  using for_predictions_first_qualifying
          [of "[long_past_high]" 1728000000 next_low tideState_init "[later_high]"]
  by (simp add: sample_pt sample_t_gmt)

subsection \<open>The two groups of fields\<close>

text \<open>
  Claim C3, as stated, fails for one kind of malformed payload. The code detects a status
  other than 200, a deserialisation error and an empty \<open>data\<close> array, but it does not
  look at the field \<open>v\<close>: when the last element of \<open>data\<close> has a blank \<open>v\<close>, \<open>toFloat\<close>
  returns 0 and the level group is overwritten with the level 0 and the delta
  \<open>0 - 8.35f\<close>, although no level was obtained.
\<close>

theorem fetchTide_blank_reading_counterexample:
  "level_fetch_failed_spec fetch_blank_reading \<and> prediction_fetch_ok fetch_blank_reading \<and>
   level_fields stale_tide = (9.5, 602931 / 524288) \<and>
   level_fields (fetchTide stale_tide fetch_blank_reading) = (0, - (4377805 / 524288))"
  by (simp add: level_fetch_failed_spec_def prediction_fetch_ok_def fetch_blank_reading_def
      level_fields_def stale_tide_def fetchTide_level level_update_def level_guards_pass_def
      sample_level_values)

text \<open>
  Claim C3, amended. Within one refresh the two groups are written independently and each
  as a whole. If the water-level fetch fails in a way the guards detect (status other than
  200, deserialisation error, or empty \<open>data\<close> array) while the prediction requests
  succeed, the level and the delta keep their prior values and the three next-event
  fields are what the search over the predictions yields: those of the first entry in
  list order that passes the test of the search, when there is one. If the guards of the
  water-level fetch pass while a prediction request fails, the next-event fields keep
  their prior values and the level and the delta are those of the last reading. In every
  refresh each group is either untouched or written from a single reading, respectively
  a single prediction.
\<close>

theorem fetchTide_groups_independent:
  "(\<not> level_guards_pass io \<and> prediction_fetch_ok io \<longrightarrow>
      level_fields (fetchTide s io) = level_fields s \<and>
      next_event_fields (fetchTide s io) =
        next_event_fields (for_predictions s (now io) (predictions io)) \<and>
      (predictions io = before @ p # after \<and> (\<forall>q\<in>set before. pt q \<le> now io) \<and>
       now io < pt p \<longrightarrow>
         next_event_fields (fetchTide s io) = next_event_fields (set_next_event s p))) \<and>
   (level_guards_pass io \<and> \<not> prediction_fetch_ok io \<longrightarrow>
      next_event_fields (fetchTide s io) = next_event_fields s \<and>
      level_fields (fetchTide s io) =
        (toFloat (last (wl_data io)), fsub (toFloat (last (wl_data io))) NOAA_MSL_FT)) \<and>
   (level_fields (fetchTide s io) = level_fields s \<or>
    (\<exists>v\<in>set (wl_data io).
       level_fields (fetchTide s io) = (toFloat v, fsub (toFloat v) NOAA_MSL_FT))) \<and>
   (next_event_fields (fetchTide s io) = next_event_fields s \<or>
    (\<exists>q\<in>set (predictions io).
       next_event_fields (fetchTide s io) = next_event_fields (set_next_event s q)))"
proof (intro conjI impI)
  assume h: "\<not> level_guards_pass io \<and> prediction_fetch_ok io"
  then show "level_fields (fetchTide s io) = level_fields s"
    by (simp add: level_fields_def fetchTide_level level_update_fail)
  from h show n: "next_event_fields (fetchTide s io) =
      next_event_fields (for_predictions s (now io) (predictions io))"
    by (simp add: fetchTide_next_fields)
  assume "predictions io = before @ p # after \<and> (\<forall>q\<in>set before. pt q \<le> now io) \<and>
    now io < pt p"
  then have "for_predictions s (now io) (predictions io) = set_next_event s p"
    by (simp add: for_predictions_first)
  with n show "next_event_fields (fetchTide s io) = next_event_fields (set_next_event s p)"
    by simp
next
  assume h: "level_guards_pass io \<and> \<not> prediction_fetch_ok io"
  then show "next_event_fields (fetchTide s io) = next_event_fields s"
    by (simp add: fetchTide_next_fields)
  from h show "level_fields (fetchTide s io) =
      (toFloat (last (wl_data io)), fsub (toFloat (last (wl_data io))) NOAA_MSL_FT)"
    by (simp add: level_fields_def fetchTide_level level_update_def)
next
  show "level_fields (fetchTide s io) = level_fields s \<or>
    (\<exists>v\<in>set (wl_data io).
       level_fields (fetchTide s io) = (toFloat v, fsub (toFloat v) NOAA_MSL_FT))"
    by (rule fetchTide_level_atomic)
  show "next_event_fields (fetchTide s io) = next_event_fields s \<or>
    (\<exists>q\<in>set (predictions io).
       next_event_fields (fetchTide s io) = next_event_fields (set_next_event s q))"
    by (rule fetchTide_next_atomic)
qed

theorem fetchTide_groups_independent_witness:
  "\<not> level_guards_pass fetch_predictions_only \<and> prediction_fetch_ok fetch_predictions_only \<and>
   level_fields (fetchTide stale_tide fetch_predictions_only) = (9.5, 602931 / 524288) \<and>
   next_event_fields (fetchTide stale_tide fetch_predictions_only) = (''Low'', 1, ''02:00 UTC'') \<and>
   level_guards_pass fetch_level_only \<and> \<not> prediction_fetch_ok fetch_level_only \<and>
   level_fields (fetchTide stale_tide fetch_level_only) = (10.5, 1127219 / 524288) \<and>
   next_event_fields (fetchTide stale_tide fetch_level_only) = (''Low'', 1 / 2, ''17:30 UTC'')"
proof -
  have pa: "\<not> level_guards_pass fetch_predictions_only \<and> prediction_fetch_ok fetch_predictions_only"
    by (intro conjI fetch_predictions_only_facts)
  have qa: "predictions fetch_predictions_only = [long_past_high] @ next_low # [later_high] \<and>
      (\<forall>q\<in>set [long_past_high]. pt q \<le> now fetch_predictions_only) \<and>
      now fetch_predictions_only < pt next_low"
    by (simp add: fetch_predictions_only_facts sample_pt)
  have pb: "level_guards_pass fetch_level_only \<and> \<not> prediction_fetch_ok fetch_level_only"
    by (intro conjI fetch_level_only_facts)
  note a = fetchTide_groups_independent
    [of fetch_predictions_only stale_tide "[long_past_high]" next_low "[later_high]",
     THEN conjunct1, THEN mp, OF pa]
  note b = fetchTide_groups_independent
    [of fetch_level_only stale_tide "[]" next_low "[]",
     THEN conjunct2, THEN conjunct1, THEN mp, OF pb]
  have a1: "level_fields (fetchTide stale_tide fetch_predictions_only) = level_fields stale_tide"
    by (rule a [THEN conjunct1])
  have a2: "next_event_fields (fetchTide stale_tide fetch_predictions_only) =
      next_event_fields (set_next_event stale_tide next_low)"
    by (rule a [THEN conjunct2, THEN conjunct2, THEN mp, OF qa])
  from a1 a2 b pa pb show ?thesis
    by (simp only: fetch_level_only_facts stale_tide_fields sample_events sample_level_values
        simp_thms)
qed

subsection \<open>Validity\<close>

lemma fetchTide_cycles_snoc:
  "fetchTide_cycles s (ios @ [io]) = fetchTide (fetchTide_cycles s ios) io"
  by (simp add: fetchTide_cycles_def)

lemma fetchTide_cycles_valid:
  "TideState.valid (fetchTide_cycles s ios) \<longleftrightarrow>
   TideState.valid s \<or> (\<exists>io\<in>set ios. level_guards_pass io)"
proof (induction ios rule: rev_induct)
  case Nil
  show ?case by (simp add: fetchTide_cycles_def)
next
  case (snoc io ios)
  then show ?case by (auto simp: fetchTide_cycles_snoc fetchTide_valid)
qed

lemma fetchTide_delta_consistent:
  "delta_consistent s \<Longrightarrow> delta_consistent (fetchTide s io)"
  by (auto simp: delta_consistent_def fetchTide_valid fetchTide_level level_update_def)

lemma fetchTide_cycles_delta_consistent:
  "delta_consistent s \<Longrightarrow> delta_consistent (fetchTide_cycles s ios)"
  by (induction ios rule: rev_induct)
     (simp_all add: fetchTide_cycles_def fetchTide_delta_consistent)

text \<open>
  Claim C4. \<open>valid\<close> is false at boot. A refresh whose water-level fetch succeeds, that
  is, passes the guards, leaves \<open>valid\<close> true and \<open>deltaMSL\<close> equal to the binary32
  difference \<open>currentFt - NOAA_MSL_FT\<close> of the stored level and the constant, as the code
  computes it; a refresh either leaves both fields alone or writes both. After any
  sequence of refreshes from boot, \<open>valid\<close> is true exactly if the water-level fetch of
  one of them passed the guards, and then the equation holds. No refresh, failed or not,
  and no sequence of refreshes, turns \<open>valid\<close> from true to false.
\<close>

theorem tideState_valid_policy:
  "\<not> TideState.valid tideState_init \<and>
   (level_guards_pass io \<longrightarrow>
      TideState.valid (fetchTide s io) \<and>
      deltaMSL (fetchTide s io) = fsub (currentFt (fetchTide s io)) NOAA_MSL_FT) \<and>
   (level_fields (fetchTide s io) = level_fields s \<or>
      deltaMSL (fetchTide s io) = fsub (currentFt (fetchTide s io)) NOAA_MSL_FT) \<and>
   (TideState.valid (fetchTide_cycles tideState_init ios) \<longleftrightarrow>
      (\<exists>c\<in>set ios. level_guards_pass c)) \<and>
   (TideState.valid (fetchTide_cycles tideState_init ios) \<longrightarrow>
      deltaMSL (fetchTide_cycles tideState_init ios) =
      fsub (currentFt (fetchTide_cycles tideState_init ios)) NOAA_MSL_FT) \<and>
   (TideState.valid s \<longrightarrow> TideState.valid (fetchTide s io)) \<and>
   (TideState.valid s \<longrightarrow> TideState.valid (fetchTide_cycles s ios))"
proof -
  have boot: "\<not> TideState.valid tideState_init"
    by (simp add: tideState_init_def)
  have ok: "TideState.valid (fetchTide s io) \<and>
      deltaMSL (fetchTide s io) = fsub (currentFt (fetchTide s io)) NOAA_MSL_FT"
    if "level_guards_pass io"
    using that by (simp add: fetchTide_valid fetchTide_level level_update_def)
  have together: "level_fields (fetchTide s io) = level_fields s \<or>
      deltaMSL (fetchTide s io) = fsub (currentFt (fetchTide s io)) NOAA_MSL_FT"
    using fetchTide_level_atomic [of s io] by (auto simp: level_fields_def)
  have "delta_consistent tideState_init"
    by (simp add: delta_consistent_def tideState_init_def)
  then have "delta_consistent (fetchTide_cycles tideState_init ios)"
    by (rule fetchTide_cycles_delta_consistent)
  then have inv: "TideState.valid (fetchTide_cycles tideState_init ios) \<longrightarrow>
      deltaMSL (fetchTide_cycles tideState_init ios) =
      fsub (currentFt (fetchTide_cycles tideState_init ios)) NOAA_MSL_FT"
    by (simp add: delta_consistent_def)
  from boot ok together inv show ?thesis
    by (simp add: fetchTide_cycles_valid fetchTide_valid)
qed

theorem tideState_valid_policy_witness:
  "level_guards_pass fetch_level_only \<and> \<not> level_guards_pass fetch_nothing \<and>
   \<not> TideState.valid (fetchTide_cycles tideState_init [fetch_nothing]) \<and>
   TideState.valid (fetchTide tideState_init fetch_level_only) \<and>
   deltaMSL (fetchTide tideState_init fetch_level_only) =
     fsub (currentFt (fetchTide tideState_init fetch_level_only)) NOAA_MSL_FT \<and>
   TideState.valid (fetchTide_cycles tideState_init [fetch_nothing, fetch_level_only, fetch_nothing]) \<and>
   deltaMSL (fetchTide_cycles tideState_init [fetch_nothing, fetch_level_only, fetch_nothing]) =
     fsub (currentFt (fetchTide_cycles tideState_init
       [fetch_nothing, fetch_level_only, fetch_nothing])) NOAA_MSL_FT"
  using tideState_valid_policy
          [of fetch_level_only tideState_init
              "[fetch_nothing, fetch_level_only, fetch_nothing]"]
        tideState_valid_policy [of fetch_level_only tideState_init "[fetch_nothing]"]
  by (simp add: fetch_level_only_facts fetch_nothing_facts)

section \<open>The weather refresh\<close>

lemma as_float_samples:
  "as_float None = 0" "as_float (Some 48) = 48" "as_float (Some 7) = 7"
  "as_float (Some 270) = 270"
  using fl32_int [of 48] fl32_int [of 7] fl32_int [of 270]
  by (simp_all add: as_float_def)

text \<open>
  Claim C5, as stated, fails twice. \<open>fetchWeather\<close> assigns \<open>fetchedAt\<close> after the guarded
  block, on every call: with a failed request the stamp of the earlier state is replaced
  by the current time string. And the code looks at no field: a payload that parses but
  lacks its fields overwrites the weather with the defaults (0, 0, 0, code 0 which reads
  \<open>Clear sky\<close>) and sets \<open>valid\<close>.
\<close>

theorem fetchWeather_claim_counterexample:
  "\<not> weather_guards_pass weather_nothing \<and>
   WeatherState.fetchedAt stale_weather = ''15:45:00'' \<and>
   WeatherState.fetchedAt (fetchWeather stale_weather weather_nothing) = ''16:06:00'' \<and>
   weather_fetch_failed_spec weather_no_fields \<and>
   stale_weather =
     \<lparr>tempF = 51.5, windMph = 4, windDirDeg = 180, condition = ''Overcast'',
      fetchedAt = ''15:45:00'', valid = True\<rparr> \<and>
   fetchWeather stale_weather weather_no_fields =
     \<lparr>tempF = 0, windMph = 0, windDirDeg = 0, condition = ''Clear sky'',
      fetchedAt = ''16:30:00'', valid = True\<rparr>"
  by (simp add: weather_guards_pass_def weather_fetch_failed_spec_def fetchWeather_def
      weather_nothing_def weather_no_fields_def stale_weather_def as_float_def as_int_def
      wmoDescription_def)

text \<open>
  Claim C5, amended. Every call of \<open>fetchWeather\<close> sets \<open>fetchedAt\<close> to the current time
  string, whether the fetch succeeds or not; on a failure that the guards detect (status
  other than 200, or a payload that fails to deserialise) all other weather fields
  (\<open>tempF\<close>, \<open>windMph\<close>, \<open>windDirDeg\<close>, \<open>condition\<close>, \<open>valid\<close>) remain unchanged; when the
  guards pass, all of them are written, a missing field as its default 0.
\<close>

theorem fetchWeather_failure_frame:
  "WeatherState.fetchedAt (fetchWeather s io) = weather_nowString io \<and>
   (\<not> weather_guards_pass io \<longrightarrow>
      tempF (fetchWeather s io) = tempF s \<and>
      windMph (fetchWeather s io) = windMph s \<and>
      windDirDeg (fetchWeather s io) = windDirDeg s \<and>
      condition (fetchWeather s io) = condition s \<and>
      WeatherState.valid (fetchWeather s io) = WeatherState.valid s) \<and>
   (weather_guards_pass io \<longrightarrow>
      tempF (fetchWeather s io) = as_float (temperature_2m io) \<and>
      windMph (fetchWeather s io) = as_float (windspeed_10m io) \<and>
      windDirDeg (fetchWeather s io) = as_float (winddirection_10m io) \<and>
      condition (fetchWeather s io) = wmoDescription (as_int (weathercode io)) \<and>
      WeatherState.valid (fetchWeather s io))"
  by (simp add: fetchWeather_def weather_guards_pass_def Let_def)

theorem fetchWeather_failure_frame_witness:
  "\<not> weather_guards_pass weather_nothing \<and>
   fetchWeather stale_weather weather_nothing =
     stale_weather\<lparr>WeatherState.fetchedAt := ''16:06:00''\<rparr> \<and>
   weather_guards_pass weather_rain \<and>
   fetchWeather stale_weather weather_rain =
     \<lparr>tempF = 48, windMph = 7, windDirDeg = 270, condition = ''Rain'',
      fetchedAt = ''16:15:00'', valid = True\<rparr>"
  using fetchWeather_failure_frame [of stale_weather weather_nothing]
    fetchWeather_failure_frame [of stale_weather weather_rain]
  by (simp add: weather_guards_pass_def wmoDescription_def WeatherState.equality
      weather_nothing_def weather_rain_def stale_weather_def as_float_samples as_int_def)

section \<open>Compass sectors\<close>

lemma smod_8_nonneg: "0 \<le> k \<Longrightarrow> (k::int) smod 8 = k mod 8"
  by (cases "k = 0") (simp_all add: signed_modulo_int_def)

lemma float_to_int_nonneg: "0 \<le> r \<Longrightarrow> float_to_int r = \<lfloor>r\<rfloor>"
  by (simp add: float_to_int_def)

text \<open>The sum \<open>deg + 22.5f\<close> is exact for a whole number of degrees.\<close>

lemma fadd_whole_degrees:
  assumes "\<bar>k\<bar> \<le> 1000000"
  shows "fadd (of_int k) 22.5 = of_int k + 22.5"
proof -
  have e: "(of_int k + 22.5 :: real) = of_int (2 * k + 45) * 2 powi (- 1)"
    by (simp add: power_int_minus field_simps)
  have "fl32 (of_int (2 * k + 45) * 2 powi (- 1)) = of_int (2 * k + 45) * 2 powi (- 1)"
    using assms by (intro fl32_exact) simp_all
  then have "fl32 (of_int k + 22.5) = of_int k + 22.5"
    by (simp only: e [symmetric])
  then show ?thesis by (simp only: fadd_def)
qed

text \<open>
  For a whole number of degrees the exact quotient is at least 1/90 below the next
  integer, so rounding it to binary32 does not reach that integer.
\<close>

lemma fdiv_whole_degrees:
  assumes "0 \<le> k" "k \<le> 1000000"
  shows "\<lfloor>fdiv (of_int k + 22.5) 45\<rfloor> = (2 * k + 45) div 90"
proof -
  define m where "m = (2 * k + 45) div 90"
  define r where "r = (2 * k + 45) mod 90"
  have k: "2 * k + 45 = 90 * m + r" and r: "0 \<le> r" "r \<le> 89"
    by (simp_all add: m_def r_def)
  have m: "0 \<le> m" "m \<le> 30000"
    using assms by (simp_all add: m_def pos_imp_zdiv_nonneg_iff)
  have q: "(of_int k + 22.5) / 45 = (of_int m + of_int r / 90 :: real)"
  proof -
    have "(of_int k + 22.5 :: real) = of_int (2 * k + 45) / 2" by simp
    also have "\<dots> = of_int (90 * m + r) / 2" by (simp only: k)
    finally show ?thesis by (simp add: field_simps)
  qed
  have lo: "(of_int m :: real) \<le> (of_int k + 22.5) / 45"
    by (subst q) (use r in simp)
  have hi: "(of_int k + 22.5) / 45 \<le> (of_int (128 * m + 127) * 2 powi (- 7) :: real)"
  proof -
    have "(of_int r :: real) \<le> 89" using r by simp
    then have "(of_int r / 90 :: real) \<le> 127 / 128" by simp
    then show ?thesis by (subst q) (simp add: power_int_minus field_simps)
  qed
  have "fl32 (of_int m) \<le> fdiv (of_int k + 22.5) 45"
    unfolding fdiv_def using lo by (rule fl32_mono)
  moreover have "fl32 (of_int m) = (of_int m :: real)"
    using m by (intro fl32_int) simp
  ultimately have a: "of_int m \<le> fdiv (of_int k + 22.5) 45" by simp
  have "fdiv (of_int k + 22.5) 45 \<le> fl32 (of_int (128 * m + 127) * 2 powi (- 7))"
    unfolding fdiv_def using hi by (rule fl32_mono)
  moreover have "fl32 (of_int (128 * m + 127) * 2 powi (- 7)) =
      of_int (128 * m + 127) * 2 powi (- 7)"
    using m by (intro fl32_exact) simp_all
  moreover have "(of_int (128 * m + 127) * 2 powi (- 7) :: real) < of_int m + 1"
    by (simp add: power_int_minus field_simps)
  ultimately have b: "fdiv (of_int k + 22.5) 45 < of_int m + 1" by simp
  from a b have "\<lfloor>fdiv (of_int k + 22.5) 45\<rfloor> = m"
    by (simp add: floor_eq_iff)
  then show ?thesis by (simp add: m_def)
qed

lemma round_whole_degrees: "round (of_int k / 45 :: real) = (2 * k + 45) div 90"
proof -
  have "(of_int k / 45 + 1 / 2 :: real) = of_int (2 * k + 45) / of_int 90"
    by (simp add: field_simps)
  then show ?thesis
    unfolding round_def by (simp only: floor_divide_of_int_eq)
qed

lemma windDirection_whole_degrees:
  assumes "0 \<le> k" "k \<le> 1000000"
  shows "windDirection (of_int k) = Some (sector_spec (of_int k))"
proof -
  define m where "m = (2 * k + 45) div 90"
  have m: "0 \<le> m" "m \<le> 30000"
    using assms by (simp_all add: m_def pos_imp_zdiv_nonneg_iff)
  have s: "fadd (of_int k) 22.5 = of_int k + 22.5"
    using assms by (intro fadd_whole_degrees) simp
  have f: "\<lfloor>fdiv (of_int k + 22.5) 45\<rfloor> = m"
    unfolding m_def using assms by (rule fdiv_whole_degrees)
  have "0 \<le> fdiv (of_int k + 22.5) 45"
    unfolding fdiv_def using assms by (intro fl32_nonneg) simp
  then have "float_to_int (fdiv (of_int k + 22.5) 45) = m"
    using f by (simp add: float_to_int_nonneg)
  then have "int_cast (fdiv (fadd (of_int k) 22.5) 45) = Some m"
    using m s by (simp add: int_cast_def)
  then have "windDirection_idx (of_int k) = Some (m mod 8)"
    using m by (simp add: windDirection_idx_def smod_8_nonneg)
  then have "windDirection (of_int k) = Some (dirs ! nat (m mod 8))"
    by (simp add: windDirection_def dirs_def)
  then show ?thesis
    by (simp add: sector_spec_def round_whole_degrees m_def)
qed

lemma windDirection_examples:
  "windDirection 0 = Some ''N''" "windDirection 44 = Some ''NE''"
  "windDirection 46 = Some ''NE''" "windDirection 350 = Some ''N''"
  using windDirection_whole_degrees [of 0] windDirection_whole_degrees [of 44]
    windDirection_whole_degrees [of 46] windDirection_whole_degrees [of 350]
  by (simp_all add: sector_spec_def round_def dirs_def)

text \<open>
  Just below 22.5 degrees the sum \<open>deg + 22.5f\<close> is a tie between two binary32 values and
  rounds to 45.
\<close>

lemma windDirection_tie:
  "windDirection (11796479 / 524288) = Some ''NE''"
  "sector_spec (11796479 / 524288) = ''N''"
proof -
  have "ulp_exp (23592959 / 524288) = - 18"
    by (rule ulp_exp_eq) (simp_all add: power_int_minus)
  then have "fl32 (23592959 / 524288) = 45"
    by (simp add: fl32_def round_even_def power_int_minus)
  then have "fadd (11796479 / 524288) 22.5 = 45"
    by (simp add: fadd_def)
  then show "windDirection (11796479 / 524288) = Some ''NE''"
    using fl32_int [of 1]
    by (simp add: windDirection_def windDirection_idx_def int_cast_def fdiv_def
        float_to_int_def signed_modulo_int_def dirs_def)
  show "sector_spec (11796479 / 524288) = ''N''"
    by (simp add: sector_spec_def round_def dirs_def)
qed

lemma windDirection_minus_100:
  "windDirection_idx (- 100) = Some (- 1)" "windDirection (- 100) = None"
  "sector_spec (- 100) = ''W''"
proof -
  have s: "fadd (- 100) 22.5 = - 77.5"
    using fl32_exact [of "- 155" "- 1"] by (simp add: fadd_def power_int_minus)
  have "fl32 (- 7 / 4) \<le> fdiv (- 77.5) 45" "fdiv (- 77.5) 45 \<le> fl32 (- 3 / 2)"
    unfolding fdiv_def by (intro fl32_mono; simp)+
  moreover have "fl32 (- 7 / 4) = - 7 / 4" "fl32 (- 3 / 2) = - 3 / 2"
    using fl32_exact [of "- 7" "- 2"] fl32_exact [of "- 3" "- 1"]
    by (simp_all add: power_int_minus)
  ultimately have "- 7 / 4 \<le> fdiv (- 77.5) 45" "fdiv (- 77.5) 45 \<le> - 3 / 2"
    by simp_all
  then have "\<lceil>fdiv (- 77.5) 45\<rceil> = - 1" "fdiv (- 77.5) 45 < 0"
    by (simp_all add: ceiling_eq_iff)
  then have "float_to_int (fdiv (fadd (- 100) 22.5) 45) = - 1"
    using s by (simp add: float_to_int_def)
  then show i: "windDirection_idx (- 100) = Some (- 1)"
    by (simp add: windDirection_idx_def int_cast_def signed_modulo_int_def)
  then show "windDirection (- 100) = None"
    by (simp add: windDirection_def)
  show "sector_spec (- 100) = ''W''"
    by (simp add: sector_spec_def round_def dirs_def)
qed

text \<open>At \<open>10 ^ 11\<close> degrees the quotient is beyond the range of \<open>int\<close>.\<close>

lemma windDirection_huge: "windDirection_idx (10 ^ 11) = None"
proof -
  have "fl32 (of_int 93 * 2 powi 30) \<le> fadd (10 ^ 11) 22.5"
    unfolding fadd_def by (intro fl32_mono) simp
  moreover have "fl32 (of_int 93 * 2 powi 30) = of_int 93 * 2 powi 30"
    by (intro fl32_exact) simp_all
  ultimately have "(99857989632 :: real) \<le> fadd (10 ^ 11) 22.5" by simp
  then have "(2 ^ 31 :: real) \<le> fadd (10 ^ 11) 22.5 / 45" by simp
  then have "fl32 (2 ^ 31) \<le> fdiv (fadd (10 ^ 11) 22.5) 45"
    unfolding fdiv_def by (rule fl32_mono)
  moreover have "fl32 (2 ^ 31) = 2 ^ 31"
    using fl32_exact [of 1 31] by simp
  ultimately have "(2 ^ 31 :: real) \<le> fdiv (fadd (10 ^ 11) 22.5) 45" by simp
  then have "2 ^ 31 \<le> \<lfloor>fdiv (fadd (10 ^ 11) 22.5) 45\<rfloor>"
    by (simp add: le_floor_iff)
  moreover from \<open>(2 ^ 31 :: real) \<le> fdiv (fadd (10 ^ 11) 22.5) 45\<close>
  have "0 \<le> fdiv (fadd (10 ^ 11) 22.5) 45" by simp
  ultimately have "2 ^ 31 \<le> float_to_int (fdiv (fadd (10 ^ 11) 22.5) 45)"
    by (simp add: float_to_int_nonneg)
  then show ?thesis
    by (simp add: windDirection_idx_def int_cast_def)
qed

lemma windDirection_huge_undefined: "windDirection (10 ^ 11) = None"
  by (simp only: windDirection_def windDirection_huge option.case)

text \<open>From \<open>-22.5\<close> to \<open>9 * 10 ^ 10\<close> degrees the cast is defined and the index in bounds.\<close>

lemma windDirection_idx_in_range:
  assumes "- 22.5 \<le> deg" "deg \<le> 9 * 10 ^ 10"
  shows "\<exists>i. windDirection_idx deg = Some i \<and> 0 \<le> i \<and> i \<le> 7 \<and>
    windDirection deg = Some (dirs ! nat i)"
proof -
  let ?a = "fadd deg 22.5" and ?q = "fdiv (fadd deg 22.5) 45"
  have a0: "0 \<le> ?a"
    unfolding fadd_def using assms by (intro fl32_nonneg) simp
  have "?a \<le> fl32 (of_int 88 * 2 powi 30)"
    unfolding fadd_def using assms by (intro fl32_mono) simp
  moreover have "fl32 (of_int 88 * 2 powi 30) = of_int 88 * 2 powi 30"
    by (intro fl32_exact) simp_all
  ultimately have a1: "?a \<le> 94489280512" by simp
  have q0: "0 \<le> ?q"
    unfolding fdiv_def using a0 by (intro fl32_nonneg) simp
  have "?a / 45 \<le> of_int 16777215 * 2 powi 7"
    using a1 by simp
  then have "?q \<le> fl32 (of_int 16777215 * 2 powi 7)"
    unfolding fdiv_def by (rule fl32_mono)
  moreover have "fl32 (of_int 16777215 * 2 powi 7) = of_int 16777215 * 2 powi 7"
    by (intro fl32_exact) simp_all
  ultimately have q1: "?q \<le> 2147483520" by simp
  define i where "i = \<lfloor>?q\<rfloor>"
  have i: "0 \<le> i" "i \<le> 2147483520"
    using q0 q1 by (simp_all add: i_def floor_le_iff)
  have "float_to_int ?q = i"
    using q0 by (simp add: float_to_int_nonneg i_def)
  then have "int_cast ?q = Some i"
    using i by (simp add: int_cast_def)
  then have x: "windDirection_idx deg = Some (i mod 8)"
    using i by (simp add: windDirection_idx_def smod_8_nonneg)
  have b: "0 \<le> i mod 8" "i mod 8 \<le> 7" by simp_all
  with x have "windDirection deg = Some (dirs ! nat (i mod 8))"
    by (simp add: windDirection_def dirs_def)
  with x b show ?thesis by blast
qed

text \<open>
  Claim C6, as stated, fails in four ways. At 44 degrees \<open>(44 + 22.5) / 45\<close> truncates to
  1, so the sector is \<open>NE\<close>, not \<open>N\<close>: the sector \<open>N\<close> ends at 22.5 degrees. At
  \<open>11796479 / 524288\<close> degrees, the binary32 value next below 22.5, the formula
  \<open>round (deg / 45) mod 8\<close> gives \<open>N\<close> but the binary32 sum rounds up to 45 and the code
  returns \<open>NE\<close>. At \<open>-100\<close> degrees the formula gives \<open>W\<close> but the code computes the index
  \<open>-1\<close> and reads outside the array, and at \<open>10 ^ 11\<close> degrees the cast is undefined.
\<close>

theorem windDirection_counterexample:
  "windDirection 44 = Some ''NE'' \<and> windDirection 44 \<noteq> Some ''N'' \<and>
   windDirection (11796479 / 524288) = Some ''NE'' \<and> sector_spec (11796479 / 524288) = ''N'' \<and>
   windDirection (- 100) = None \<and> sector_spec (- 100) = ''W'' \<and>
   windDirection (10 ^ 11) = None"
  using windDirection_huge_undefined
  by (simp add: windDirection_examples windDirection_tie windDirection_minus_100)

text \<open>
  Claim C6, amended. For every whole number of degrees from 0 to \<open>10 ^ 6\<close>, which covers
  the 0 to 360 of the weather service, \<open>windDirection\<close> returns the sector
  \<open>round (deg / 45) mod 8\<close>, halves rounded up, which the code computes by adding 22.5
  before the division and truncating, so that sector \<open>N\<close> is centred on 0 degrees; it maps
  0 to \<open>N\<close>, 44 to \<open>NE\<close>, 46 to \<open>NE\<close> and 350 to \<open>N\<close>.
\<close>

theorem windDirection_sector:
  "(0 \<le> k \<and> k \<le> 10 ^ 6 \<longrightarrow>
      windDirection (of_int k) = Some (dirs ! nat (round (of_int k / 45 :: real) mod 8))) \<and>
   windDirection 0 = Some ''N'' \<and> windDirection 44 = Some ''NE'' \<and>
   windDirection 46 = Some ''NE'' \<and> windDirection 350 = Some ''N''"
  using windDirection_whole_degrees [of k]
  by (simp add: windDirection_examples sector_spec_def)

theorem windDirection_sector_witness:
  "(0::int) \<le> 100 \<and> (100::int) \<le> 10 ^ 6 \<and> round (100 / 45 :: real) mod 8 = 2 \<and>
   windDirection 100 = Some ''E''"
  using windDirection_sector [of 100] by (simp add: round_def dirs_def)

text \<open>
  Claim C9, as stated, fails for very large inputs: at \<open>10 ^ 11\<close> degrees the quotient
  exceeds the range of \<open>int\<close> and the cast, hence the index, is undefined.
\<close>

theorem windDirection_idx_counterexample:
  "(- 22.5 :: real) \<le> 10 ^ 11 \<and> windDirection_idx (10 ^ 11) = None"
  using windDirection_huge by simp

text \<open>
  Claim C9, amended. For every direction \<open>deg\<close> with \<open>-22.5 \<le> deg \<le> 9 * 10 ^ 10\<close>, which
  covers the 0 to 360 of the weather service, the cast in \<open>windDirection\<close> is defined and
  the index lies in \<open>[0, 7]\<close>, so the read of \<open>dirs\<close> is in bounds. The lower bound is
  needed: at \<open>-100\<close> degrees the index is \<open>-1\<close> and the read is outside the array.
\<close>

theorem windDirection_idx_bounds:
  "(\<forall>deg. - 22.5 \<le> deg \<and> deg \<le> 9 * 10 ^ 10 \<longrightarrow>
      (\<exists>i. windDirection_idx deg = Some i \<and> 0 \<le> i \<and> i \<le> 7) \<and> windDirection deg \<noteq> None) \<and>
   (- 100 :: real) < - 22.5 \<and> windDirection_idx (- 100) = Some (- 1) \<and>
   windDirection (- 100) = None"
proof -
  have "(\<exists>i. windDirection_idx deg = Some i \<and> 0 \<le> i \<and> i \<le> 7) \<and> windDirection deg \<noteq> None"
    if "- 22.5 \<le> deg" "deg \<le> 9 * 10 ^ 10" for deg
    using windDirection_idx_in_range [OF that] by auto
  then show ?thesis
    by (simp add: windDirection_minus_100)
qed

theorem windDirection_idx_bounds_witness:
  "(- 22.5 :: real) \<le> 350 \<and> (350 :: real) \<le> 9 * 10 ^ 10 \<and> windDirection 350 \<noteq> None"
  using windDirection_idx_bounds [THEN conjunct1, rule_format, of 350] by simp

section \<open>The needle refresh\<close>

lemma setNeedle_frame:
  "tideState (setNeedle d v) = tideState d"
  "weatherState (setNeedle d v) = weatherState d"
  "dacWrites (setNeedle d v) = dacWrites d @ [v]"
  by (simp_all add: setNeedle_def)

lemma sweep_up_tideState: "tideState (sweep_up i d) = tideState d"
proof (induction i d rule: sweep_up.induct)
  case (1 i d)
  then show ?case by (subst sweep_up.simps) (simp add: setNeedle_frame)
qed

lemma sweep_down_tideState: "tideState (sweep_down i d) = tideState d"
proof (induction i d rule: sweep_down.induct)
  case (1 i d)
  then show ?case by (subst sweep_down.simps) (simp add: setNeedle_frame)
qed

lemma bootSweep_tideState: "tideState (bootSweep d) = tideState d"
  by (simp add: bootSweep_def Let_def setNeedle_frame sweep_up_tideState sweep_down_tideState)

lemma setup_boot_tideState:
  "tideState (setup_boot tio wio) = fetchTide tideState_init tio"
  by (simp add: setup_boot_def Let_def setNeedle_frame bootSweep_tideState device_init_def)

lemma setup_boot_last_write:
  "dacWrites (setup_boot tio wio) \<noteq> [] \<and>
   last (dacWrites (setup_boot tio wio)) = tideToDAC (deltaMSL (tideState (setup_boot tio wio)))"
  by (simp add: setup_boot_def Let_def setNeedle_frame)

lemma fetchTide_invalid_delta:
  "\<not> TideState.valid (fetchTide s io) \<Longrightarrow> deltaMSL (fetchTide s io) = deltaMSL s"
  by (simp add: fetchTide_valid fetchTide_level level_update_def)

lemma loop_tideState:
  "tideState (loop d io) =
     (if millis io - lastTideFetch d \<ge> TIDE_INTERVAL_MS
      then fetchTide (tideState d) (tide_io io) else tideState d)"
  by (simp add: loop_def Let_def setNeedle_frame)

lemma loop_valid_kept:
  "TideState.valid (tideState d) \<Longrightarrow> TideState.valid (tideState (loop d io))"
  by (simp add: loop_tideState fetchTide_valid)

lemma loop_dacWrites:
  "dacWrites (loop d io) =
     (if millis io - lastNeedleUpdate d \<ge> DISPLAY_INTERVAL_MS \<and>
         TideState.valid (tideState (loop d io))
      then dacWrites d @ [tideToDAC (deltaMSL (tideState (loop d io)))]
      else dacWrites d)"
  by (simp add: loop_def Let_def setNeedle_frame)

lemma loop_passes_snoc: "loop_passes d (ios @ [io]) = loop (loop_passes d ios) io"
  by (simp add: loop_passes_def)

lemma loop_passes_valid_kept:
  "TideState.valid (tideState d) \<Longrightarrow> TideState.valid (tideState (loop_passes d ios))"
  by (induction ios rule: rev_induct) (simp_all add: loop_passes_def loop_valid_kept)

lemma loop_passes_invalid_dacWrites:
  "\<not> TideState.valid (tideState (loop_passes d ios)) \<Longrightarrow> dacWrites (loop_passes d ios) = dacWrites d"
proof (induction ios rule: rev_induct)
  case Nil
  show ?case by (simp add: loop_passes_def)
next
  case (snoc io ios)
  from snoc.prems have nv: "\<not> TideState.valid (tideState (loop (loop_passes d ios) io))"
    by (simp add: loop_passes_snoc)
  then have "\<not> TideState.valid (tideState (loop_passes d ios))"
    using loop_valid_kept by blast
  then have "dacWrites (loop_passes d ios) = dacWrites d" by (rule snoc.IH)
  moreover have "dacWrites (loop (loop_passes d ios) io) = dacWrites (loop_passes d ios)"
    using nv by (simp add: loop_dacWrites)
  ultimately show ?case by (simp add: loop_passes_snoc)
qed

lemma pass_400s_facts:
  "millis pass_400s = 400000" "tide_io pass_400s = fetch_nothing"
  "weather_io pass_400s = weather_nothing"
  by (simp_all add: pass_400s_def)

lemma high_water_device_facts:
  "tideState high_water_device = tideState_init\<lparr>deltaMSL := 8, TideState.valid := True\<rparr>"
  "lastTideFetch high_water_device = 0" "lastNeedleUpdate high_water_device = 0"
  "dacWrites high_water_device = []"
  by (simp_all add: high_water_device_def device_init_def)

text \<open>
  Claim C10. One pass of \<open>loop\<close> writes the DAC only if the 5-second timer has expired
  and \<open>valid\<close> holds at that point; the value written is then \<open>tideToDAC deltaMSL\<close>.
  Hence, as long as \<open>valid\<close> is false after any number of passes, none of them has
  written the DAC; started from the end of the startup sequence, the needle is still
  where that sequence left it, at the centre code 128.
\<close>

theorem loop_needle_gated:
  "dacWrites (loop d io) =
     (if millis io - lastNeedleUpdate d \<ge> DISPLAY_INTERVAL_MS \<and>
         TideState.valid (tideState (loop d io))
      then dacWrites d @ [tideToDAC (deltaMSL (tideState (loop d io)))]
      else dacWrites d) \<and>
   (\<not> TideState.valid (tideState (loop_passes d ios)) \<longrightarrow> dacWrites (loop_passes d ios) = dacWrites d) \<and>
   (\<not> TideState.valid (tideState (loop_passes (setup_boot tio wio) ios)) \<longrightarrow>
      dacWrites (loop_passes (setup_boot tio wio) ios) = dacWrites (setup_boot tio wio) \<and>
      last (dacWrites (loop_passes (setup_boot tio wio) ios)) = 128)"
proof -
  have "last (dacWrites (setup_boot tio wio)) = 128"
    if "\<not> TideState.valid (tideState (loop_passes (setup_boot tio wio) ios))"
  proof -
    have "\<not> TideState.valid (tideState (setup_boot tio wio))"
      using that loop_passes_valid_kept by blast
    then have "deltaMSL (tideState (setup_boot tio wio)) = 0"
      using fetchTide_invalid_delta [of tideState_init tio]
      by (simp add: setup_boot_tideState tideState_init_def)
    then show ?thesis
      using setup_boot_last_write [of tio wio] by (simp add: tideToDAC_zero)
  qed
  then show ?thesis
    by (simp add: loop_dacWrites loop_passes_invalid_dacWrites)
qed

theorem loop_needle_gated_witness:
  "\<not> TideState.valid (tideState (loop_passes (setup_boot fetch_nothing weather_nothing)
        [pass_400s, pass_400s])) \<and>
   dacWrites (loop_passes (setup_boot fetch_nothing weather_nothing) [pass_400s, pass_400s]) =
     dacWrites (setup_boot fetch_nothing weather_nothing) \<and>
   last (dacWrites (loop_passes (setup_boot fetch_nothing weather_nothing)
        [pass_400s, pass_400s])) = 128 \<and>
   DISPLAY_INTERVAL_MS \<le> millis pass_400s - lastNeedleUpdate high_water_device \<and>
   TideState.valid (tideState (loop high_water_device pass_400s)) \<and>
   dacWrites (loop high_water_device pass_400s) = [255]"
proof -
  let ?boot = "setup_boot fetch_nothing weather_nothing"
  have nv: "\<not> TideState.valid (tideState (loop_passes ?boot [pass_400s, pass_400s]))"
    by (simp add: loop_passes_def loop_tideState setup_boot_tideState fetchTide_valid
        fetch_nothing_facts pass_400s_facts tideState_init_def)
  have t: "DISPLAY_INTERVAL_MS \<le> millis pass_400s - lastNeedleUpdate high_water_device"
    by (simp add: DISPLAY_INTERVAL_MS_def pass_400s_facts high_water_device_facts)
  have v1: "TideState.valid (tideState (loop high_water_device pass_400s))"
    by (simp add: loop_tideState fetchTide_valid high_water_device_facts)
  have v2: "deltaMSL (tideState (loop high_water_device pass_400s)) = 8"
    by (simp add: loop_tideState fetchTide_level level_update_def fetch_nothing_facts
        pass_400s_facts high_water_device_facts)
  note g = loop_needle_gated
    [of high_water_device pass_400s "[pass_400s, pass_400s]" fetch_nothing weather_nothing]
  have "dacWrites (loop high_water_device pass_400s) =
      dacWrites high_water_device @
      [tideToDAC (deltaMSL (tideState (loop high_water_device pass_400s)))]"
    using g [THEN conjunct1] t v1 by simp
  then have a: "dacWrites (loop high_water_device pass_400s) = [255]"
    by (simp add: v2 tideToDAC_top high_water_device_facts)
  have b: "dacWrites (loop_passes ?boot [pass_400s, pass_400s]) = dacWrites ?boot \<and>
      last (dacWrites (loop_passes ?boot [pass_400s, pass_400s])) = 128"
    using g [THEN conjunct2, THEN conjunct2] nv by (rule mp)
  from a b nv t v1 show ?thesis by blast
qed

end
